theory Spec2Isabelle
  imports Main
begin

section \<open>JavaScript values\<close>

text \<open>
  The tool manager of \<^verbatim>\<open>src/tool_creation_tool.js\<close> handles values whose type is
  not fixed: tool names, descriptions, parameter schemas, argument bags, metadata
  records of the vector store, and whatever a generated tool returns or throws.
  They are modelled by one datatype of JavaScript values. Numbers are integers
  (no claim depends on a fractional value), objects are lists of their own
  properties in the order of enumeration, an \<^verbatim>\<open>Error\<close> instance keeps its name and
  message, and a promise keeps whether it is fulfilled and the value it settled
  with. Strings are lists of 8-bit code units. The values are data: functions
  are not among them. The methods that a value inherits from the prototypes of
  the platform come into play where \<^verbatim>\<open>executeTool\<close> reads \<^verbatim>\<open>args[param]\<close> under a name
  that a schema chooses; such a read is modelled by \<open>read_prop\<close> below.
\<close>

datatype jsval =
    JUndefined
  | JNull
  | JBool bool
  | JNum int
  | JStr string
  | JArr "jsval list"
  | JObj "(string \<times> jsval) list"
  | JError string string
  | JPromise bool jsval

text \<open>
  A computation either completes with a value (\<open>Inr\<close>) or throws a JavaScript
  value (\<open>Inl\<close>).
\<close>

type_synonym 'a completion = "jsval + 'a"

definition mkError :: "string \<Rightarrow> jsval" where
  "mkError msg = JError ''Error'' msg"

definition mkTypeError :: "string \<Rightarrow> jsval" where
  "mkTypeError msg = JError ''TypeError'' msg"

definition mkSyntaxError :: "string \<Rightarrow> jsval" where
  "mkSyntaxError msg = JError ''SyntaxError'' msg"

text \<open>Truthiness (\<^verbatim>\<open>!v\<close> is \<open>falsy v\<close>) and \<^verbatim>\<open>typeof\<close>.\<close>

fun truthy :: "jsval \<Rightarrow> bool" where
  "truthy JUndefined = False"
| "truthy JNull = False"
| "truthy (JBool b) = b"
| "truthy (JNum n) = (n \<noteq> 0)"
| "truthy (JStr s) = (s \<noteq> [])"
| "truthy (JArr xs) = True"
| "truthy (JObj kvs) = True"
| "truthy (JError n m) = True"
| "truthy (JPromise f v) = True"

definition falsy :: "jsval \<Rightarrow> bool" where
  "falsy v = (\<not> truthy v)"

fun typeof :: "jsval \<Rightarrow> string" where
  "typeof JUndefined = ''undefined''"
| "typeof JNull = ''object''"
| "typeof (JBool b) = ''boolean''"
| "typeof (JNum n) = ''number''"
| "typeof (JStr s) = ''string''"
| "typeof (JArr xs) = ''object''"
| "typeof (JObj kvs) = ''object''"
| "typeof (JError n m) = ''object''"
| "typeof (JPromise f v) = ''object''"

definition nullish :: "jsval \<Rightarrow> bool" where
  "nullish v = (v = JUndefined \<or> v = JNull)"

text \<open>
  Decimal notation, as \<^verbatim>\<open>String(n)\<close> prints an integer below \<open>10\<^sup>2\<^sup>1\<close> in absolute
  value. \<open>decimal\<close> prints a number that is not negative.
\<close>

definition digit_char :: "nat \<Rightarrow> char" where
  "digit_char d = char_of (of_char CHR ''0'' + d)"

function decimal :: "int \<Rightarrow> string" where
  "decimal n =
     (if 10 \<le> n then decimal (n div 10) @ [digit_char (nat (n mod 10))]
      else [digit_char (nat n)])"
  by pat_completeness auto

termination decimal
  by (relation "measure nat") auto

declare decimal.simps [simp del]

definition string_of_int :: "int \<Rightarrow> string" where
  "string_of_int i = (if i < 0 then CHR ''-'' # decimal (- i) else decimal i)"

definition string_of_nat :: "nat \<Rightarrow> string" where
  "string_of_nat n = decimal (int n)"

text \<open>
  \<^verbatim>\<open>String(v)\<close> and the conversion a template literal applies. An array prints its
  elements separated by commas, \<^verbatim>\<open>null\<close> and \<^verbatim>\<open>undefined\<close> elements as the empty
  text (\<^verbatim>\<open>Array.prototype.join\<close>).
\<close>

fun to_String :: "jsval \<Rightarrow> string"
  and join_with :: "string \<Rightarrow> jsval list \<Rightarrow> string" where
  "to_String JUndefined = ''undefined''"
| "to_String JNull = ''null''"
| "to_String (JBool b) = (if b then ''true'' else ''false'')"
| "to_String (JNum n) = string_of_int n"
| "to_String (JStr s) = s"
| "to_String (JArr xs) = join_with '','' xs"
| "to_String (JObj kvs) = ''[object Object]''"
| "to_String (JError n m) = (if m = [] then n else if n = [] then m else n @ '': '' @ m)"
| "to_String (JPromise f v) = ''[object Promise]''"
| "join_with sep [] = []"
| "join_with sep (x # xs) =
     (if x = JUndefined \<or> x = JNull then [] else to_String x)
     @ (if xs = [] then [] else sep @ join_with sep xs)"

text \<open>
  Reading a property under a name that the source fixes, \<^verbatim>\<open>v.k\<close>: a \<^verbatim>\<open>TypeError\<close>
  on \<^verbatim>\<open>null\<close> and \<^verbatim>\<open>undefined\<close>, the own property of an object, \<^verbatim>\<open>length\<close> and the
  indices of an array or a string, and \<^verbatim>\<open>undefined\<close> otherwise. The names that the
  source reads this way (\<^verbatim>\<open>type\<close>, \<^verbatim>\<open>properties\<close>, \<^verbatim>\<open>required\<close>, \<^verbatim>\<open>description\<close>,
  \<^verbatim>\<open>name\<close>, \<^verbatim>\<open>code\<close>, \<^verbatim>\<open>parameters_json\<close>, \<^verbatim>\<open>is_internal\<close>, \<^verbatim>\<open>message\<close> and the three
  parameters of the reserved tool) are members of no prototype of the platform,
  the name and the message of an error apart, which the error carries here. So
  the own property is all that such a read can find.
\<close>

definition index_prop :: "'a list \<Rightarrow> string \<Rightarrow> 'a option" where
  "index_prop xs k = map_option (\<lambda>i. xs ! i) (find (\<lambda>i. string_of_nat i = k) [0..<length xs])"

fun get_prop :: "jsval \<Rightarrow> string \<Rightarrow> jsval completion" where
  "get_prop JUndefined k =
     Inl (mkTypeError (''Cannot read properties of undefined (reading '' @ [CHR 0x27] @ k @ [CHR 0x27] @ '')''))"
| "get_prop JNull k =
     Inl (mkTypeError (''Cannot read properties of null (reading '' @ [CHR 0x27] @ k @ [CHR 0x27] @ '')''))"
| "get_prop (JObj kvs) k = Inr (case map_of kvs k of None \<Rightarrow> JUndefined | Some v \<Rightarrow> v)"
| "get_prop (JArr xs) k =
     Inr (if k = ''length'' then JNum (int (length xs))
          else case index_prop xs k of None \<Rightarrow> JUndefined | Some v \<Rightarrow> v)"
| "get_prop (JStr s) k =
     Inr (if k = ''length'' then JNum (int (length s))
          else case index_prop s k of None \<Rightarrow> JUndefined | Some c \<Rightarrow> JStr [c])"
| "get_prop (JError n m) k =
     Inr (if k = ''message'' then JStr m else if k = ''name'' then JStr n else JUndefined)"
| "get_prop (JBool b) k = Inr JUndefined"
| "get_prop (JNum n) k = Inr JUndefined"
| "get_prop (JPromise f v) k = Inr JUndefined"

text \<open>The same read on a value already known not to be \<^verbatim>\<open>null\<close> or \<^verbatim>\<open>undefined\<close>.\<close>

definition propOf :: "jsval \<Rightarrow> string \<Rightarrow> jsval" where
  "propOf v k = (case get_prop v k of Inl e \<Rightarrow> JUndefined | Inr x \<Rightarrow> x)"

text \<open>Whether a value has an own property of that name, whatever its value.\<close>

fun has_own :: "jsval \<Rightarrow> string \<Rightarrow> bool" where
  "has_own (JObj kvs) k = (map_of kvs k \<noteq> None)"
| "has_own (JArr xs) k = (k = ''length'' \<or> index_prop xs k \<noteq> None)"
| "has_own (JStr s) k = (k = ''length'' \<or> index_prop s k \<noteq> None)"
| "has_own (JError n m) k = (k = ''message'' \<or> k = ''name'')"
| "has_own JUndefined k = False"
| "has_own JNull k = False"
| "has_own (JBool b) k = False"
| "has_own (JNum n) k = False"
| "has_own (JPromise f v) k = False"

section \<open>Texts\<close>

definition startsWith :: "string \<Rightarrow> string \<Rightarrow> bool" where
  "startsWith s p = (take (length p) s = p)"

definition is_space :: "char \<Rightarrow> bool" where
  "is_space c = (c \<in> set [CHR 0x09, CHR 0x0A, CHR 0x0B, CHR 0x0C, CHR 0x0D, CHR 0x20])"

definition trim :: "string \<Rightarrow> string" where
  "trim s = rev (dropWhile is_space (rev (dropWhile is_space s)))"

definition nl :: string where
  "nl = [CHR 0x0A]"

definition quote :: "string \<Rightarrow> string" where
  "quote s = [CHR 0x27] @ s @ [CHR 0x27]"

section \<open>Sanitizing generated code\<close>

text \<open>
  \<^verbatim>\<open>code.replace(/^```(?:javascript|js)?\s*|```\s*$/g, '')\<close>. The pattern has no
  \<^verbatim>\<open>m\<close> flag, so its first alternative matches at index 0 only and its second
  alternative matches only a fence that is followed by nothing but whitespace up
  to the end of the text. \<open>leading_fence\<close> is the length of the match of the first
  alternative at the start of the text (the optional language tag is tried as
  \<^verbatim>\<open>javascript\<close>, then \<^verbatim>\<open>js\<close>, then nothing, and the whitespace is greedy);
  \<open>strip_trailing_fence\<close> scans the remaining positions for the second one.
\<close>

definition leading_fence :: "string \<Rightarrow> nat option" where
  "leading_fence s =
     (if startsWith s ''```'' then
        (let r = drop 3 s;
             l = (if startsWith r ''javascript'' then 10 else if startsWith r ''js'' then 2 else 0)
         in Some (3 + l + length (takeWhile is_space (drop l r))))
      else None)"

definition trailing_fence :: "string \<Rightarrow> bool" where
  "trailing_fence s = (startsWith s ''```'' \<and> list_all is_space (drop 3 s))"

fun strip_trailing_fence :: "string \<Rightarrow> string" where
  "strip_trailing_fence [] = []"
| "strip_trailing_fence (c # cs) =
     (if trailing_fence (c # cs) then [] else c # strip_trailing_fence cs)"

definition strip_fences :: "string \<Rightarrow> string" where
  "strip_fences s =
     (case leading_fence s of
        Some n \<Rightarrow> strip_trailing_fence (drop n s)
      | None \<Rightarrow> strip_trailing_fence s)"

text \<open>
  \<^verbatim>\<open>sanitizedCode.search(/^(async\s+)?function\s+/)\<close>: the index of the first
  match, or \<open>-1\<close>. The pattern starts with \<^verbatim>\<open>^\<close> and has no \<^verbatim>\<open>m\<close> flag, so the
  only index at which it can match is 0.
\<close>

definition function_keyword :: "string \<Rightarrow> bool" where
  "function_keyword s = (startsWith s ''function'' \<and> (case drop 8 s of [] \<Rightarrow> False | c # cs \<Rightarrow> is_space c))"

definition async_function_keyword :: "string \<Rightarrow> bool" where
  "async_function_keyword s =
     (startsWith s ''async'' \<and>
      (case drop 5 s of [] \<Rightarrow> False
       | c # cs \<Rightarrow> is_space c \<and> function_keyword (dropWhile is_space cs)))"

definition search_function :: "string \<Rightarrow> int" where
  "search_function s = (if async_function_keyword s \<or> function_keyword s then 0 else - 1)"

definition sanitizeGeneratedCode :: "string \<Rightarrow> string \<Rightarrow> string" where
  "sanitizeGeneratedCode code functionName =
     (let sanitizedCode = trim (strip_fences code) in
      if startsWith sanitizedCode (''function '' @ functionName)
         \<or> startsWith sanitizedCode (''async function '' @ functionName)
      then sanitizedCode
      else (let funcIndex = search_function sanitizedCode in
            if funcIndex \<noteq> - 1 then drop (nat funcIndex) sanitizedCode
            else ''function '' @ functionName @ ''(params) {'' @ nl @ sanitizedCode @ nl @ ''}''))"

section \<open>Collaborators\<close>

text \<open>
  The manager calls a chat model, an embedding model, the JavaScript engine
  (\<^verbatim>\<open>new Function\<close>, \<^verbatim>\<open>JSON\<close>) and a Chroma collection. What these answer is not
  decided by the repository, so it is a parameter of every operation: an
  environment of oracles.

  \<^item> \<open>chat_content p\<close> is \<^verbatim>\<open>response.choices[0]?.message?.content\<close> for the prompt
    \<open>p\<close>, or what the client throws.
  \<^item> \<open>embedQuery t\<close> is the embedding of a text, or what the client throws.
  \<^item> \<open>syntax_error c\<close> is the message of the \<^verbatim>\<open>SyntaxError\<close> of
    \<^verbatim>\<open>new Function('params', c)\<close>, if the text does not parse.
  \<^item> \<open>compile n c\<close> is what the engine makes of the stored text \<open>c\<close> inside the
    execution wrapper of the tool \<open>n\<close> (see below).
  \<^item> \<open>JSON_stringify v i\<close> is \<^verbatim>\<open>JSON.stringify(v, null, i)\<close>, and \<open>JSON_parse\<close> is
    \<^verbatim>\<open>JSON.parse\<close>.
  \<^item> \<open>db_get_error\<close>, \<open>db_add_error\<close> and \<open>db_query_error\<close> are what the collection
    throws when it fails; \<open>db_rank v\<close> lists identifiers by similarity to \<open>v\<close>.
  \<^item> \<open>inherited v k\<close> tells whether the prototypes that the platform gives the
    value \<open>v\<close> have a member named \<open>k\<close>: \<^verbatim>\<open>toString\<close> for every object, \<^verbatim>\<open>map\<close> for an
    array. Such a member is a function or an accessor of the platform, and
    neither \<^verbatim>\<open>null\<close> nor \<^verbatim>\<open>undefined\<close>.
\<close>

type_synonym vector = "int list"

text \<open>
  The stored text of a tool is spliced into the body of a wrapper function, in a
  \<^verbatim>\<open>try\<close> block, before the statements that look the tool up by name and call it.
  Running the spliced statements on an argument bag either binds the tool's name
  to a function (whose call returns or throws), or leaves it unbound, or ends
  abruptly: the statements throw, or return from the wrapper.
\<close>

datatype body_result =
    Defines "jsval \<Rightarrow> jsval completion"
  | NotDefined
  | Abrupt "jsval completion"

datatype compiled =
    SyntaxErr string
  | Body "jsval \<Rightarrow> body_result"

record env =
  chat_content :: "string \<Rightarrow> jsval completion"
  embedQuery :: "string \<Rightarrow> vector completion"
  syntax_error :: "string \<Rightarrow> string option"
  compile :: "string \<Rightarrow> string \<Rightarrow> compiled"
  JSON_stringify :: "jsval \<Rightarrow> nat \<Rightarrow> string"
  JSON_parse :: "string \<Rightarrow> jsval completion"
  db_get_error :: "jsval option"
  db_add_error :: "jsval option"
  db_query_error :: "jsval option"
  db_rank :: "vector \<Rightarrow> string list"
  inherited :: "jsval \<Rightarrow> string \<Rightarrow> bool"

text \<open>
  Reading a property under a computed name, \<^verbatim>\<open>v[k]\<close>: a \<^verbatim>\<open>TypeError\<close> on \<^verbatim>\<open>null\<close> and
  \<^verbatim>\<open>undefined\<close>; an own property, which hides the prototypes; and for a name
  that the value does not own, the member of that name that it inherits, if
  there is one, or \<^verbatim>\<open>undefined\<close>. An inherited member is not a value of this
  development; all that is known of it is that it is not \<^verbatim>\<open>null\<close> and not
  \<^verbatim>\<open>undefined\<close>.
\<close>

datatype property = Own jsval | Inherited

definition read_prop :: "env \<Rightarrow> jsval \<Rightarrow> string \<Rightarrow> property completion" where
  "read_prop E v k =
     (case get_prop v k of
        Inl e \<Rightarrow> Inl e
      | Inr x \<Rightarrow> Inr (if \<not> has_own v k \<and> inherited E v k then Inherited else Own x))"

text \<open>\<^verbatim>\<open>p === undefined || p === null\<close>\<close>

definition absent :: "property \<Rightarrow> bool" where
  "absent p = (case p of Own v \<Rightarrow> nullish v | Inherited \<Rightarrow> False)"

text \<open>
  The collection maps an identifier to its embedding, its metadata object and its
  document. \<^verbatim>\<open>collection.add\<close> never replaces a record: an identifier that is
  already present keeps what it has.
\<close>

record entry =
  embedding :: vector
  metadata :: jsval
  document :: string

type_synonym store = "string \<rightharpoonup> entry"

definition db_get :: "env \<Rightarrow> store \<Rightarrow> string \<Rightarrow> entry option completion" where
  "db_get E db ident = (case db_get_error E of Some e \<Rightarrow> Inl e | None \<Rightarrow> Inr (db ident))"

definition db_add :: "env \<Rightarrow> store \<Rightarrow> string \<Rightarrow> entry \<Rightarrow> store completion" where
  "db_add E db ident ent =
     (case db_add_error E of
        Some e \<Rightarrow> Inl e
      | None \<Rightarrow> Inr (if db ident = None then db(ident \<mapsto> ent) else db))"

definition db_query :: "env \<Rightarrow> store \<Rightarrow> vector \<Rightarrow> int \<Rightarrow> (string \<times> jsval) list completion" where
  "db_query E db v nResults =
     (case db_query_error E of
        Some e \<Rightarrow> Inl e
      | None \<Rightarrow>
          Inr (map (\<lambda>i. (i, case db i of None \<Rightarrow> JUndefined | Some ent \<Rightarrow> metadata ent))
                 (take (nat nResults) (filter (\<lambda>i. db i \<noteq> None) (db_rank E v)))))"

text \<open>What the operations do to the engine and the chat model, in order.\<close>

datatype event =
    LlmCalled string
  | SyntaxChecked string
  | Compiled string string
  | Invoked string jsval

text \<open>
  \<^verbatim>\<open>catch (error) { return `...${error.message}`; }\<close>: the handler reads the
  message of whatever was thrown, and that read throws when the thrown value is
  \<^verbatim>\<open>null\<close> or \<^verbatim>\<open>undefined\<close>.
\<close>

definition catch_message :: "string \<Rightarrow> jsval \<Rightarrow> jsval completion" where
  "catch_message prefix error =
     (case get_prop error ''message'' of
        Inl e \<Rightarrow> Inl e
      | Inr m \<Rightarrow> Inr (JStr (prefix @ to_String m)))"

section \<open>The reserved tool\<close>

definition TOOL_CREATION_NAME :: string where
  "TOOL_CREATION_NAME = ''tool_creation''"

definition TOOL_CREATION_DESCRIPTION :: string where
  "TOOL_CREATION_DESCRIPTION = ''Define and create a new tool (JavaScript function) that the LLM can use later. Takes the desired tool name, description, and parameter schema.''"

definition TOOL_CREATION_REQUIRED :: "jsval list" where
  "TOOL_CREATION_REQUIRED = [JStr ''new_tool_name'', JStr ''new_tool_description'', JStr ''new_tool_parameters'']"

definition TOOL_CREATION_PARAMETERS :: jsval where
  "TOOL_CREATION_PARAMETERS =
     JObj [(''type'', JStr ''object''),
           (''properties'', JObj [
              (''new_tool_name'', JObj [(''type'', JStr ''string''),
                 (''description'', JStr ''The name for the new tool function (use snake_case).'')]),
              (''new_tool_description'', JObj [(''type'', JStr ''string''),
                 (''description'', JStr ''A clear description of what the new tool does and when to use it.'')]),
              (''new_tool_parameters'', JObj [(''type'', JStr ''object''),
                 (''description'', JStr ''A JSON schema object describing the parameters the new function will accept.''),
                 (''properties'', JObj [
                    (''type'', JObj [(''type'', JStr ''string''), (''enum'', JArr [JStr ''object''])]),
                    (''properties'', JObj [(''type'', JStr ''object'')]),
                    (''required'', JObj [(''type'', JStr ''array''), (''items'', JObj [(''type'', JStr ''string'')])])]),
                 (''required'', JArr [JStr ''type'', JStr ''properties''])])]),
           (''required'', JArr TOOL_CREATION_REQUIRED)]"

text \<open>The descriptor of a tool, as \<^verbatim>\<open>getAvailableTools\<close> lists it.\<close>

record tool_descriptor =
  t_name :: jsval
  t_description :: jsval
  t_parameters :: jsval

definition creatorToolDef :: tool_descriptor where
  "creatorToolDef =
     \<lparr> t_name = JStr TOOL_CREATION_NAME,
       t_description = JStr TOOL_CREATION_DESCRIPTION,
       t_parameters = TOOL_CREATION_PARAMETERS \<rparr>"

section \<open>Creating a tool\<close>

subsection \<open>The prompt\<close>

text \<open>
  \<^verbatim>\<open>generateToolCreationPrompt\<close> throws on a schema whose \<^verbatim>\<open>type\<close> is not
  \<^verbatim>\<open>'object'\<close> or whose \<^verbatim>\<open>properties\<close> is not of type object. It then maps over
  \<^verbatim>\<open>Object.entries(parameters.properties)\<close>, reading \<^verbatim>\<open>type\<close> and \<^verbatim>\<open>description\<close>
  of every property (the lines it builds are not used in the prompt, but building
  them throws on \<^verbatim>\<open>null\<close>), and joins \<^verbatim>\<open>parameters.required || []\<close>.
\<close>

definition invalid_schema :: "jsval \<Rightarrow> bool" where
  "invalid_schema parameters =
     (\<not> (truthy parameters \<and> typeof parameters = ''object''
         \<and> propOf parameters ''type'' = JStr ''object''
         \<and> typeof (propOf parameters ''properties'') = ''object''))"

definition Object_entries :: "jsval \<Rightarrow> (string \<times> jsval) list completion" where
  "Object_entries v =
     (case v of
        JUndefined \<Rightarrow> Inl (mkTypeError ''Cannot convert undefined or null to object'')
      | JNull \<Rightarrow> Inl (mkTypeError ''Cannot convert undefined or null to object'')
      | JObj kvs \<Rightarrow> Inr kvs
      | JArr xs \<Rightarrow> Inr (zip (map string_of_nat [0..<length xs]) xs)
      | JStr s \<Rightarrow> Inr (zip (map string_of_nat [0..<length s]) (map (\<lambda>c. JStr [c]) s))
      | _ \<Rightarrow> Inr [])"

fun paramDetails :: "(string \<times> jsval) list \<Rightarrow> string list completion" where
  "paramDetails [] = Inr []"
| "paramDetails ((key, v) # rest) =
     (case get_prop v ''type'' of
        Inl e \<Rightarrow> Inl e
      | Inr ty \<Rightarrow>
          (case get_prop v ''description'' of
             Inl e \<Rightarrow> Inl e
           | Inr d \<Rightarrow>
               (case paramDetails rest of
                  Inl e \<Rightarrow> Inl e
                | Inr ls \<Rightarrow>
                    Inr (('' *   '' @ key @ '' ('' @ to_String ty @ ''): ''
                          @ (if truthy d then to_String d else ''No description'')) # ls))))"

definition join_required :: "jsval \<Rightarrow> string completion" where
  "join_required requiredParams =
     (case requiredParams of
        JArr xs \<Rightarrow> Inr (join_with '', '' xs)
      | _ \<Rightarrow> Inl (mkTypeError ''requiredParams.join is not a function''))"

text \<open>
  The prompt itself, the template of lines 69 to 107 of the source. \<open>required\<close> is
  the joined list of required parameters.
\<close>

definition prompt_text :: "env \<Rightarrow> jsval \<Rightarrow> jsval \<Rightarrow> jsval \<Rightarrow> string \<Rightarrow> string" where
  "prompt_text E name description parameters required =
     ''You are an expert JavaScript function generator. Your task is to create a JavaScript function based on the provided specification.'' @ nl
     @ nl
     @ ''     **Function Specification:**'' @ nl
     @ ''     - Name: '' @ to_String name @ nl
     @ ''     - Description: '' @ to_String description @ nl
     @ ''     - Parameters Schema:'' @ nl
     @ ''     ```json'' @ nl
     @ ''     '' @ JSON_stringify E parameters 2 @ nl
     @ ''     ```'' @ nl
     @ ''     - Required Parameters: '' @ (if required = [] then ''None'' else required) @ nl
     @ nl
     @ ''     **Instructions:**'' @ nl
     @ ''     1.  Write a single, standalone JavaScript function named precisely `'' @ to_String name @ ''`.'' @ nl
     @ ''     2.  The function MUST accept a single argument: an object named `params` containing the specified parameters (e.g., `params.param1`, `params.param2`).'' @ nl
     @ ''     3.  The function should perform the action described in the description.'' @ nl
     @ ''     4.  The function MUST return a single string indicating the result or outcome of the action (e.g., \"Entity moved successfully.\", \"Error: Target location not found.\"). Do NOT return complex objects or boolean values directly, convert them to descriptive strings.'' @ nl
     @ ''     5.  Do NOT include any comments, explanations, or surrounding text outside the function definition itself.'' @ nl
     @ ''     6.  Do NOT include markdown code block markers (```javascript or ```) in your output.'' @ nl
     @ ''     7.  Ensure the function handles potential errors gracefully and returns an informative error string starting with \"Error: \".'' @ nl
     @ nl
     @ ''     **Example Function Structure:**'' @ nl
     @ ''     ```javascript'' @ nl
     @ ''     function example_tool_name(params) {'' @ nl
     @ ''       // Access parameters like params.param1, params.param2'' @ nl
     @ ''       try {'' @ nl
     @ ''         // ... function logic based on description ...'' @ nl
     @ ''         if (params.param1 === 'special') {'' @ nl
     @ ''           return `Special action performed with ${params.param1}.`;'' @ nl
     @ ''         }'' @ nl
     @ ''         return `Example tool executed with param1: ${params.param1}`;'' @ nl
     @ ''       } catch (error) {'' @ nl
     @ ''         console.error('Error in example_tool_name:', error);'' @ nl
     @ ''         return `Error executing example_tool_name: ${error.message}`;'' @ nl
     @ ''       }'' @ nl
     @ ''     }'' @ nl
     @ ''     ```'' @ nl
     @ nl
     @ ''     **Your Task:**'' @ nl
     @ ''     Generate *only* the JavaScript function code for `'' @ to_String name @ ''` based *exactly* on the specification provided above.''"

definition generateToolCreationPrompt :: "env \<Rightarrow> jsval \<Rightarrow> jsval \<Rightarrow> jsval \<Rightarrow> string completion" where
  "generateToolCreationPrompt E name description parameters =
     (if invalid_schema parameters
      then Inl (mkError ''Invalid parameters schema provided for new tool creation.'')
      else
        (case Object_entries (propOf parameters ''properties'') of
           Inl e \<Rightarrow> Inl e
         | Inr entries \<Rightarrow>
             (case paramDetails entries of
                Inl e \<Rightarrow> Inl e
              | Inr details \<Rightarrow>
                  (let requiredParams =
                         (if truthy (propOf parameters ''required'')
                          then propOf parameters ''required'' else JArr [])
                   in case join_required requiredParams of
                        Inl e \<Rightarrow> Inl e
                      | Inr joined \<Rightarrow> Inr (prompt_text E name description parameters joined)))))"

subsection \<open>Validation of the arguments\<close>

definition is_letter :: "char \<Rightarrow> bool" where
  "is_letter c = (let n = (of_char c :: nat) in (65 \<le> n \<and> n \<le> 90) \<or> (97 \<le> n \<and> n \<le> 122))"

definition is_digit :: "char \<Rightarrow> bool" where
  "is_digit c = (let n = (of_char c :: nat) in 48 \<le> n \<and> n \<le> 57)"

text \<open>\<^verbatim>\<open>/^[a-zA-Z_][a-zA-Z0-9_]*$/.test(newToolName)\<close>\<close>

definition valid_tool_name :: "string \<Rightarrow> bool" where
  "valid_tool_name s =
     (case s of
        [] \<Rightarrow> False
      | c # cs \<Rightarrow> (is_letter c \<or> c = CHR ''_'')
                 \<and> list_all (\<lambda>d. is_letter d \<or> is_digit d \<or> d = CHR ''_'') cs)"

definition missing_arguments :: "jsval \<Rightarrow> jsval \<Rightarrow> jsval \<Rightarrow> bool" where
  "missing_arguments newToolName newToolDescription newToolParameters =
     (falsy newToolName \<or> falsy newToolDescription \<or> falsy newToolParameters)"

definition invalid_argument_types :: "jsval \<Rightarrow> jsval \<Rightarrow> jsval \<Rightarrow> bool" where
  "invalid_argument_types newToolName newToolDescription newToolParameters =
     (\<not> (typeof newToolName = ''string'' \<and> typeof newToolDescription = ''string''
         \<and> typeof newToolParameters = ''object''))"

text \<open>Step 1 of \<^verbatim>\<open>createTool\<close>: the error text it returns, if any.\<close>

definition validateInputs :: "jsval \<Rightarrow> jsval \<Rightarrow> jsval \<Rightarrow> string option" where
  "validateInputs newToolName newToolDescription newToolParameters =
     (if missing_arguments newToolName newToolDescription newToolParameters
      then Some ''Error: Missing required arguments for tool creation (name, description, parameters).''
      else if invalid_argument_types newToolName newToolDescription newToolParameters
      then Some ''Error: Invalid argument types for tool creation.''
      else if \<not> valid_tool_name (to_String newToolName)
      then Some (''Error: Invalid tool name '' @ quote (to_String newToolName)
                 @ ''. Use snake_case with letters, numbers, and underscores, starting with a letter or underscore.'')
      else None)"

subsection \<open>Generation and validation of the code\<close>

definition expected_signature :: "string \<Rightarrow> string \<Rightarrow> bool" where
  "expected_signature name code =
     (startsWith code (''function '' @ name @ ''(params)'')
      \<or> startsWith code (''async function '' @ name @ ''(params)''))"

text \<open>
  \<^verbatim>\<open>response.choices[0]?.message?.content?.trim() || ''\<close>: a text is trimmed, a
  missing content gives the empty text, and any other value has no \<^verbatim>\<open>trim\<close>.
\<close>

definition trimmed_content :: "jsval \<Rightarrow> string completion" where
  "trimmed_content content =
     (case content of
        JStr s \<Rightarrow> Inr (trim s)
      | JUndefined \<Rightarrow> Inr []
      | JNull \<Rightarrow> Inr []
      | _ \<Rightarrow> Inl (mkTypeError ''response.choices[0]?.message?.content?.trim is not a function''))"

text \<open>
  The body of the first \<^verbatim>\<open>try\<close> block of \<^verbatim>\<open>createTool\<close> (steps 3 and 4): the
  validated code, or what the block throws, and the calls it made.
\<close>

definition validateCode :: "env \<Rightarrow> string \<Rightarrow> string \<Rightarrow> string completion \<times> event list" where
  "validateCode E name raw =
     (if raw = [] then (Inl (mkError ''LLM returned empty code.''), [])
      else
        (let generatedCode = sanitizeGeneratedCode raw name in
         if \<not> expected_signature name generatedCode
         then (Inl (mkError (''Generated code does not start with the expected function signature ''
                  @ quote (''function '' @ name @ ''(params) {...}'') @ '' or ''
                  @ quote (''async function '' @ name @ ''(params) {...}'') @ ''. Got: ''
                  @ take 100 generatedCode @ ''...'')), [])
         else
           (case syntax_error E generatedCode of
              Some msg \<Rightarrow>
                (Inl (mkError (''Generated code has syntax errors: '' @ msg @ nl @ ''Code:'' @ nl @ generatedCode)),
                 [SyntaxChecked generatedCode])
            | None \<Rightarrow> (Inr generatedCode, [SyntaxChecked generatedCode]))))"

definition generateCode :: "env \<Rightarrow> string \<Rightarrow> string \<Rightarrow> string completion \<times> event list" where
  "generateCode E name prompt =
     (case chat_content E prompt of
        Inl e \<Rightarrow> (Inl e, [LlmCalled prompt])
      | Inr content \<Rightarrow>
          (case trimmed_content content of
             Inl e \<Rightarrow> (Inl e, [LlmCalled prompt])
           | Inr raw \<Rightarrow>
               (let (r, evs) = validateCode E name raw in (r, LlmCalled prompt # evs))))"

subsection \<open>Storing the tool\<close>

definition tool_metadata :: "env \<Rightarrow> jsval \<Rightarrow> jsval \<Rightarrow> jsval \<Rightarrow> string \<Rightarrow> bool \<Rightarrow> jsval" where
  "tool_metadata E name description parameters code internal =
     JObj [(''name'', name),
           (''description'', description),
           (''parameters_json'', JStr (JSON_stringify E parameters 0)),
           (''code'', JStr code),
           (''is_internal'', JBool internal)]"

text \<open>
  The second \<^verbatim>\<open>try\<close> block of \<^verbatim>\<open>createTool\<close> (step 5): the duplicate re-check,
  the embedding and the write. Its handler turns what the collection or the
  embedding model throws into an error text.
\<close>

definition created_entry :: "env \<Rightarrow> vector \<Rightarrow> jsval \<Rightarrow> jsval \<Rightarrow> jsval \<Rightarrow> string \<Rightarrow> entry" where
  "created_entry E emb newToolName newToolDescription newToolParameters generatedCode =
     \<lparr> embedding = emb,
       metadata = tool_metadata E newToolName newToolDescription newToolParameters generatedCode False,
       document = ''Tool definition for '' @ to_String newToolName @ '': ''
                    @ to_String newToolDescription \<rparr>"

definition storeTool :: "env \<Rightarrow> store \<Rightarrow> jsval \<Rightarrow> jsval \<Rightarrow> jsval \<Rightarrow> string \<Rightarrow> jsval completion \<times> store" where
  "storeTool E db newToolName newToolDescription newToolParameters generatedCode =
     (let name = to_String newToolName;
          failed = (\<lambda>dbError. catch_message (''Error: Failed to store tool '' @ name @ '' in database. '') dbError)
      in case db_get E db name of
           Inl dbError \<Rightarrow> (failed dbError, db)
         | Inr (Some existing) \<Rightarrow>
             (Inr (JStr (''Warning: Tool '' @ quote name @ '' already existed. Creation skipped.'')), db)
         | Inr None \<Rightarrow>
             (case embedQuery E (name @ '': '' @ to_String newToolDescription) of
                Inl dbError \<Rightarrow> (failed dbError, db)
              | Inr emb \<Rightarrow>
                  (case db_add E db name
                          (created_entry E emb newToolName newToolDescription
                             newToolParameters generatedCode) of
                     Inl dbError \<Rightarrow> (failed dbError, db)
                   | Inr db' \<Rightarrow> (Inr (JStr (''Successfully created tool: '' @ name)), db'))))"

subsection \<open>\<^verbatim>\<open>createTool\<close>\<close>

text \<open>
  The result of an operation: what it returns or throws, the collection after
  it, and the calls it made to the chat model and the engine. Logging and the
  cache of the manager (cleared on creation, never read) do not influence any
  result and are left out.
\<close>

type_synonym outcome = "jsval completion \<times> store \<times> event list"

definition createTool :: "env \<Rightarrow> store \<Rightarrow> jsval \<Rightarrow> jsval \<Rightarrow> jsval \<Rightarrow> outcome" where
  "createTool E db newToolName newToolDescription newToolParameters =
     (case validateInputs newToolName newToolDescription newToolParameters of
        Some err \<Rightarrow> (Inr (JStr err), db, [])
      | None \<Rightarrow>
          (case generateToolCreationPrompt E newToolName newToolDescription newToolParameters of
             Inl e \<Rightarrow> (Inl e, db, [])
           | Inr prompt \<Rightarrow>
               (case generateCode E (to_String newToolName) prompt of
                  (Inl error, evs) \<Rightarrow>
                    (catch_message (''Error: Failed to generate or validate code for tool ''
                                    @ to_String newToolName @ ''. '') error, db, evs)
                | (Inr generatedCode, evs) \<Rightarrow>
                    (let (r, db') = storeTool E db newToolName newToolDescription
                                      newToolParameters generatedCode
                     in (r, db', evs)))))"

subsection \<open>\<^verbatim>\<open>ensureToolCreationTool\<close>\<close>

text \<open>
  The reserved tool is written at initialization unless the collection already
  has it; a failed existence check is logged and the write is attempted anyway.
  A failed embedding or write is thrown on.
\<close>

definition ensureToolCreationTool :: "env \<Rightarrow> store \<Rightarrow> unit completion \<times> store" where
  "ensureToolCreationTool E db =
     (let toolName = TOOL_CREATION_NAME;
          found = (case db_get E db toolName of Inr (Some existing) \<Rightarrow> True | _ \<Rightarrow> False)
      in if found then (Inr (), db)
         else
           (case embedQuery E (toolName @ '': '' @ TOOL_CREATION_DESCRIPTION) of
              Inl addError \<Rightarrow> (Inl addError, db)
            | Inr emb \<Rightarrow>
                (case db_add E db toolName
                        \<lparr> embedding = emb,
                          metadata = tool_metadata E (JStr toolName) (JStr TOOL_CREATION_DESCRIPTION)
                                       TOOL_CREATION_PARAMETERS
                                       (''// Internal ToolCreationManager function: '' @ toolName) True,
                          document = ''Tool definition for '' @ toolName @ '': ''
                                       @ TOOL_CREATION_DESCRIPTION \<rparr> of
                   Inl addError \<Rightarrow> (Inl addError, db)
                 | Inr db' \<Rightarrow> (Inr (), db'))))"

section \<open>Retrieving tools\<close>

record tool_definition =
  td_name :: jsval
  td_description :: jsval
  td_parameters :: jsval
  td_code :: jsval
  td_is_internal :: jsval

definition incomplete_metadata :: "jsval \<Rightarrow> bool" where
  "incomplete_metadata md =
     (falsy md \<or> falsy (propOf md ''code'') \<or> falsy (propOf md ''parameters_json''))"

text \<open>
  \<^verbatim>\<open>getToolDefinition\<close> answers \<^verbatim>\<open>null\<close> (here \<open>None\<close>) when the collection fails,
  when it has no record of that name, when the metadata lacks the code or the
  serialized schema, and when the serialized schema does not parse.
\<close>

definition getToolDefinition :: "env \<Rightarrow> store \<Rightarrow> string \<Rightarrow> tool_definition option" where
  "getToolDefinition E db toolName =
     (case db_get E db toolName of
        Inl error \<Rightarrow> None
      | Inr None \<Rightarrow> None
      | Inr (Some ent) \<Rightarrow>
          (let md = metadata ent in
           if incomplete_metadata md then None
           else
             (case JSON_parse E (to_String (propOf md ''parameters_json'')) of
                Inl error \<Rightarrow> None
              | Inr parameters \<Rightarrow>
                  Some \<lparr> td_name = propOf md ''name'',
                         td_description = propOf md ''description'',
                         td_parameters = parameters,
                         td_code = propOf md ''code'',
                         td_is_internal = (if truthy (propOf md ''is_internal'')
                                           then propOf md ''is_internal'' else JBool False) \<rparr>)))"

definition complete_result :: "jsval \<Rightarrow> bool" where
  "complete_result md =
     (truthy md \<and> truthy (propOf md ''name'') \<and> truthy (propOf md ''description'')
      \<and> truthy (propOf md ''parameters_json''))"

text \<open>
  The loop of \<^verbatim>\<open>getAvailableTools\<close> over the query results, in rank order: a
  result under the reserved identifier is skipped, a result with incomplete
  metadata is skipped, and a result whose serialized schema does not parse is
  skipped.
\<close>

fun collectTools :: "env \<Rightarrow> (string \<times> jsval) list \<Rightarrow> tool_descriptor list" where
  "collectTools E [] = []"
| "collectTools E ((toolId, md) # rest) =
     (if toolId = TOOL_CREATION_NAME then collectTools E rest
      else if complete_result md then
        (case JSON_parse E (to_String (propOf md ''parameters_json'')) of
           Inl parseError \<Rightarrow> collectTools E rest
         | Inr parameters \<Rightarrow>
             \<lparr> t_name = propOf md ''name'',
               t_description = propOf md ''description'',
               t_parameters = parameters \<rparr> # collectTools E rest)
      else collectTools E rest)"

text \<open>
  The \<^verbatim>\<open>try\<close> block of \<^verbatim>\<open>getAvailableTools\<close>: the embedding of the context, the
  query, the reserved descriptor first and then the loop. What the embedding
  model or the collection throws leaves the block.
\<close>

definition queryTools :: "env \<Rightarrow> store \<Rightarrow> string \<Rightarrow> int \<Rightarrow> tool_descriptor list completion" where
  "queryTools E db contextQuery count =
     (case embedQuery E contextQuery of
        Inl error \<Rightarrow> Inl error
      | Inr queryEmbedding \<Rightarrow>
          (case db_query E db queryEmbedding count of
             Inl error \<Rightarrow> Inl error
           | Inr results \<Rightarrow> Inr (creatorToolDef # collectTools E results)))"

text \<open>
  \<^verbatim>\<open>getAvailableTools\<close>: the handler of the block catches everything and returns
  the reserved descriptor alone, so the operation always returns a list.
\<close>

definition getAvailableTools :: "env \<Rightarrow> store \<Rightarrow> string \<Rightarrow> int \<Rightarrow> tool_descriptor list" where
  "getAvailableTools E db contextQuery count =
     (case queryTools E db contextQuery count of
        Inl error \<Rightarrow> [creatorToolDef]
      | Inr availableTools \<Rightarrow> availableTools)"

section \<open>Executing a tool\<close>

text \<open>
  The check of the required parameters, \<^verbatim>\<open>for (const param of required)\<close>: the
  first parameter for which \<^verbatim>\<open>args[param]\<close> is \<^verbatim>\<open>undefined\<close> or \<^verbatim>\<open>null\<close> throws, and
  so does reading a property of an \<^verbatim>\<open>args\<close> that is itself \<^verbatim>\<open>null\<close> or
  \<^verbatim>\<open>undefined\<close>. The read follows the prototypes of \<^verbatim>\<open>args\<close>. \<open>what\<close> is the end of
  the message.
\<close>

fun check_required :: "env \<Rightarrow> string \<Rightarrow> jsval \<Rightarrow> jsval list \<Rightarrow> unit completion" where
  "check_required E what args [] = Inr ()"
| "check_required E what args (param # rest) =
     (case read_prop E args (to_String param) of
        Inl e \<Rightarrow> Inl e
      | Inr p \<Rightarrow>
          if absent p
          then Inl (mkError (''Missing required parameter '' @ quote (to_String param) @ what))
          else check_required E what args rest)"

text \<open>What \<^verbatim>\<open>for ... of\<close> iterates: the elements of an array, the characters of a text.\<close>

definition iterate :: "jsval \<Rightarrow> jsval list completion" where
  "iterate v =
     (case v of
        JArr xs \<Rightarrow> Inr xs
      | JStr s \<Rightarrow> Inr (map (\<lambda>c. JStr [c]) s)
      | _ \<Rightarrow> Inl (mkTypeError ''schema.required is not iterable''))"

definition check_schema_required :: "env \<Rightarrow> string \<Rightarrow> jsval \<Rightarrow> jsval \<Rightarrow> unit completion" where
  "check_schema_required E toolName schema args =
     (if truthy schema \<and> truthy (propOf schema ''required'') then
        (case iterate (propOf schema ''required'') of
           Inl e \<Rightarrow> Inl e
         | Inr required \<Rightarrow> check_required E ('' for tool '' @ toolName @ ''.'') args required)
      else Inr ())"

text \<open>
  The wrapper function built around the stored code (lines 491 to 518 of the
  source), called with the argument bag: after the spliced statements it throws
  if the name is not bound to a function, calls the function, and converts a
  result that is not a text with \<^verbatim>\<open>String\<close>; its handler turns what was thrown
  into an error text.
\<close>

definition functionWrapper :: "string \<Rightarrow> (jsval \<Rightarrow> body_result) \<Rightarrow> jsval \<Rightarrow> jsval completion" where
  "functionWrapper toolName body params =
     (let attempt =
        (case body params of
           Abrupt c \<Rightarrow> c
         | NotDefined \<Rightarrow>
             Inl (mkError (''Tool code did not define function '' @ [CHR 0x22] @ toolName @ [CHR 0x22] @ ''.''))
         | Defines f \<Rightarrow>
             (case f params of
                Inl e \<Rightarrow> Inl e
              | Inr result \<Rightarrow>
                  if typeof result = ''string'' then Inr result
                  else Inr (JStr (to_String result))))
      in case attempt of
           Inr v \<Rightarrow> Inr v
         | Inl executionError \<Rightarrow>
             catch_message (''Error: Execution failed for tool '' @ toolName @ '': '') executionError)"

text \<open>
  The dynamic execution (the last \<^verbatim>\<open>try\<close> block of \<^verbatim>\<open>executeTool\<close>): the check of
  the required parameters, the compilation of the wrapper, its call.
\<close>

definition runTool :: "env \<Rightarrow> string \<Rightarrow> string \<Rightarrow> jsval \<Rightarrow> jsval \<Rightarrow> jsval completion \<times> event list" where
  "runTool E toolName toolCode schema args =
     (case check_schema_required E toolName schema args of
        Inl e \<Rightarrow> (Inl e, [])
      | Inr u \<Rightarrow>
          (case compile E toolName toolCode of
             SyntaxErr msg \<Rightarrow> (Inl (mkSyntaxError msg), [Compiled toolName toolCode])
           | Body body \<Rightarrow>
               (functionWrapper toolName body args,
                [Compiled toolName toolCode, Invoked toolName args])))"

definition invalid_creation_types :: "jsval \<Rightarrow> bool" where
  "invalid_creation_types args =
     (\<not> (typeof (propOf args ''new_tool_name'') = ''string''
         \<and> typeof (propOf args ''new_tool_description'') = ''string''
         \<and> typeof (propOf args ''new_tool_parameters'') = ''object''))"

definition unusable_code :: "jsval \<Rightarrow> bool" where
  "unusable_code toolCode = (falsy toolCode \<or> typeof toolCode \<noteq> ''string'')"

definition executeTool :: "env \<Rightarrow> store \<Rightarrow> string \<Rightarrow> jsval \<Rightarrow> outcome" where
  "executeTool E db toolName args =
     (if toolName = TOOL_CREATION_NAME then
        (let failed = catch_message (''Error: Failed to execute '' @ toolName @ ''. '') in
         case check_required E '' for tool_creation.'' args TOOL_CREATION_REQUIRED of
           Inl error \<Rightarrow> (failed error, db, [])
         | Inr u \<Rightarrow>
             if invalid_creation_types args
             then (failed (mkError ''Invalid parameter types for tool_creation.''), db, [])
             else
               (case createTool E db (propOf args ''new_tool_name'')
                       (propOf args ''new_tool_description'') (propOf args ''new_tool_parameters'') of
                  (Inl error, db', evs) \<Rightarrow> (failed error, db', evs)
                | (Inr r, db', evs) \<Rightarrow> (Inr r, db', evs)))
      else
        (case getToolDefinition E db toolName of
           None \<Rightarrow>
             (Inr (JStr (''Error: Tool '' @ quote toolName @ '' not found or definition is corrupted.'')), db, [])
         | Some toolDefinition \<Rightarrow>
             if truthy (td_is_internal toolDefinition)
             then (Inr (JStr (''Error: Cannot execute internal tool '' @ quote toolName @ '' directly.'')), db, [])
             else if unusable_code (td_code toolDefinition)
             then (Inr (JStr (''Error: Invalid or missing code for tool '' @ quote toolName @ ''.'')), db, [])
             else
               (case runTool E toolName (to_String (td_code toolDefinition))
                       (td_parameters toolDefinition) args of
                  (Inl wrapperError, evs) \<Rightarrow>
                    (catch_message (''Error: Failed to execute tool '' @ toolName
                       @ ''. Malformed code or unexpected runtime error. '') wrapperError, db, evs)
                | (Inr result, evs) \<Rightarrow> (Inr result, db, evs))))"

section \<open>Reachable collections\<close>

text \<open>
  The collection is written by this manager only: it starts empty, and every
  later state is the result of an initialization, a creation or an execution,
  whatever the collaborators answered.
\<close>

inductive reachable :: "store \<Rightarrow> bool" where
  empty: "reachable Map.empty"
| ensure: "reachable db \<Longrightarrow> ensureToolCreationTool E db = (u, db') \<Longrightarrow> reachable db'"
| create: "reachable db \<Longrightarrow> createTool E db n d p = (r, db', evs) \<Longrightarrow> reachable db'"
| execute: "reachable db \<Longrightarrow> executeTool E db toolName args = (r, db', evs) \<Longrightarrow> reachable db'"

text \<open>Every record is stored under the name its metadata gives.\<close>

definition names_are_ids :: "store \<Rightarrow> bool" where
  "names_are_ids db = (\<forall>i ent. db i = Some ent \<longrightarrow> propOf (metadata ent) ''name'' = JStr i)"

fun is_Error :: "jsval \<Rightarrow> bool" where
  "is_Error (JError n m) = True"
| "is_Error v = False"

section \<open>The JSON codec\<close>

text \<open>
  \<^verbatim>\<open>JSON.stringify\<close> and \<^verbatim>\<open>JSON.parse\<close> belong to the platform, and the operations
  above take them from the environment. This section models them on the values
  of this development, to instantiate the environment with: the serializer
  escapes texts as the platform does, leaves out properties whose value is
  \<^verbatim>\<open>undefined\<close>, writes \<^verbatim>\<open>null\<close> for an \<^verbatim>\<open>undefined\<close> element of an array and indents
  by the given gap; the parser is a recursive descent with the nesting depth
  bounded by the length of the text. The values being those of this development,
  a number with a fraction or an exponent and an escape \<^verbatim>\<open>\uXXXX\<close> of a code unit
  from 256 on have no value to be parsed to, and the parser rejects them.
\<close>

definition hex_digits :: string where
  "hex_digits = ''0123456789abcdef''"

definition escape_char :: "char \<Rightarrow> string" where
  "escape_char c =
     (if c = CHR 0x22 then [CHR 0x5C, CHR 0x22]
      else if c = CHR 0x5C then [CHR 0x5C, CHR 0x5C]
      else if c = CHR 0x08 then [CHR 0x5C, CHR ''b'']
      else if c = CHR 0x09 then [CHR 0x5C, CHR ''t'']
      else if c = CHR 0x0A then [CHR 0x5C, CHR ''n'']
      else if c = CHR 0x0C then [CHR 0x5C, CHR ''f'']
      else if c = CHR 0x0D then [CHR 0x5C, CHR ''r'']
      else if (of_char c :: nat) < 32
      then [CHR 0x5C, CHR ''u'', CHR ''0'', CHR ''0'',
            hex_digits ! (of_char c div 16), hex_digits ! (of_char c mod 16)]
      else [c])"

definition json_quote :: "string \<Rightarrow> string" where
  "json_quote s = CHR 0x22 # concat (map escape_char s) @ [CHR 0x22]"

fun separated :: "string \<Rightarrow> string list \<Rightarrow> string" where
  "separated sep [] = []"
| "separated sep (x # xs) = x @ (if xs = [] then [] else sep @ separated sep xs)"

definition brackets :: "nat \<Rightarrow> nat \<Rightarrow> string \<Rightarrow> string \<Rightarrow> string list \<Rightarrow> string" where
  "brackets gap ind l r items =
     (if items = [] then l @ r
      else if gap = 0 then l @ separated '','' items @ r
      else l @ nl @ replicate (ind + gap) CHR '' ''
           @ separated ('','' @ nl @ replicate (ind + gap) CHR '' '') items
           @ nl @ replicate ind CHR '' '' @ r)"

fun json_text :: "nat \<Rightarrow> nat \<Rightarrow> jsval \<Rightarrow> string"
  and json_items :: "nat \<Rightarrow> nat \<Rightarrow> jsval list \<Rightarrow> string list"
  and json_fields :: "nat \<Rightarrow> nat \<Rightarrow> (string \<times> jsval) list \<Rightarrow> string list" where
  "json_text gap ind JUndefined = ''undefined''"
| "json_text gap ind JNull = ''null''"
| "json_text gap ind (JBool b) = (if b then ''true'' else ''false'')"
| "json_text gap ind (JNum n) = string_of_int n"
| "json_text gap ind (JStr s) = json_quote s"
| "json_text gap ind (JArr xs) = brackets gap ind ''['' '']'' (json_items gap (ind + gap) xs)"
| "json_text gap ind (JObj kvs) = brackets gap ind ''{'' ''}'' (json_fields gap (ind + gap) kvs)"
| "json_text gap ind (JError n m) = ''{}''"
| "json_text gap ind (JPromise f v) = ''{}''"
| "json_items gap ind [] = []"
| "json_items gap ind (x # xs) =
     (if x = JUndefined then ''null'' else json_text gap ind x) # json_items gap ind xs"
| "json_fields gap ind [] = []"
| "json_fields gap ind ((k, v) # kvs) =
     (if v = JUndefined then json_fields gap ind kvs
      else (json_quote k @ (if gap = 0 then '':'' else '': '') @ json_text gap ind v)
           # json_fields gap ind kvs)"

definition json_stringify :: "jsval \<Rightarrow> nat \<Rightarrow> string" where
  "json_stringify v gap = json_text (min gap 10) 0 v"

definition is_ws :: "char \<Rightarrow> bool" where
  "is_ws c = (c = CHR 0x20 \<or> c = CHR 0x09 \<or> c = CHR 0x0A \<or> c = CHR 0x0D)"

definition skip_ws :: "string \<Rightarrow> string" where
  "skip_ws s = dropWhile is_ws s"

fun position :: "'a \<Rightarrow> 'a list \<Rightarrow> nat option" where
  "position x [] = None"
| "position x (y # ys) = (if x = y then Some 0 else map_option Suc (position x ys))"

definition hex_value :: "char \<Rightarrow> nat option" where
  "hex_value c =
     (case position c hex_digits of
        Some n \<Rightarrow> Some n
      | None \<Rightarrow> map_option (\<lambda>n. n + 10) (position c ''ABCDEF''))"

definition unescape :: "char \<Rightarrow> char option" where
  "unescape e =
     (if e = CHR 0x22 then Some (CHR 0x22)
      else if e = CHR 0x5C then Some (CHR 0x5C)
      else if e = CHR ''/'' then Some (CHR ''/'')
      else if e = CHR ''b'' then Some (CHR 0x08)
      else if e = CHR ''t'' then Some (CHR 0x09)
      else if e = CHR ''n'' then Some (CHR 0x0A)
      else if e = CHR ''f'' then Some (CHR 0x0C)
      else if e = CHR ''r'' then Some (CHR 0x0D)
      else None)"

definition code_unit :: "char \<Rightarrow> char \<Rightarrow> char \<Rightarrow> char \<Rightarrow> char option" where
  "code_unit a b c d =
     (case (hex_value a, hex_value b, hex_value c, hex_value d) of
        (Some h3, Some h2, Some h1, Some h0) \<Rightarrow>
          if h3 = 0 \<and> h2 = 0 then Some (char_of (16 * h1 + h0)) else None
      | _ \<Rightarrow> None)"

definition consume :: "char option \<Rightarrow> (string \<times> string) option \<Rightarrow> (string \<times> string) option" where
  "consume c rest =
     (case c of None \<Rightarrow> None
      | Some x \<Rightarrow> (case rest of None \<Rightarrow> None | Some (t, r) \<Rightarrow> Some (x # t, r)))"

fun parse_chars :: "string \<Rightarrow> (string \<times> string) option" where
  "parse_chars [] = None"
| "parse_chars [c] = (if c = CHR 0x22 then Some ([], []) else None)"
| "parse_chars (c # e # r) =
     (if c = CHR 0x22 then Some ([], e # r)
      else if c = CHR 0x5C then
        (if e = CHR ''u'' then
           (case r of
              a # b # c # d # r' \<Rightarrow> consume (code_unit a b c d) (parse_chars r')
            | _ \<Rightarrow> None)
         else consume (unescape e) (parse_chars r))
      else if (of_char c :: nat) < 32 then None
      else consume (Some c) (parse_chars (e # r)))"

fun int_of_digits :: "int \<Rightarrow> string \<Rightarrow> int" where
  "int_of_digits acc [] = acc"
| "int_of_digits acc (c # cs) = int_of_digits (10 * acc + (of_char c - 48)) cs"

definition parse_number :: "string \<Rightarrow> (jsval \<times> string) option" where
  "parse_number s =
     (let negative = (s \<noteq> [] \<and> hd s = CHR ''-'');
          r = (if negative then tl s else s);
          ds = takeWhile is_digit r;
          rest = dropWhile is_digit r
      in if ds = [] \<or> (length ds > 1 \<and> hd ds = CHR ''0'') then None
         else if rest \<noteq> [] \<and> hd rest \<in> set ''.eE'' then None
         else Some (JNum (if negative then - int_of_digits 0 ds else int_of_digits 0 ds), rest))"

text \<open>
  An object enumerates the keys that are array indices first, in ascending
  order, and its other keys after them in the order in which they were added.
  \<open>array_index k\<close> is the index that the key \<open>k\<close> denotes, if it is the decimal
  notation of a number below \<open>2\<^sup>3\<^sup>2 - 1\<close>; \<open>key_before k k'\<close> tells that \<open>k\<close> is
  enumerated before \<open>k'\<close> even when it is added after it.
\<close>

definition array_index :: "string \<Rightarrow> int option" where
  "array_index k =
     (if k \<noteq> [] \<and> list_all is_digit k \<and> (length k = 1 \<or> hd k \<noteq> CHR ''0'')
         \<and> int_of_digits 0 k < 4294967295
      then Some (int_of_digits 0 k) else None)"

definition key_before :: "string \<Rightarrow> string \<Rightarrow> bool" where
  "key_before k k' =
     (case array_index k of
        None \<Rightarrow> False
      | Some i \<Rightarrow> (case array_index k' of None \<Rightarrow> True | Some j \<Rightarrow> i < j))"

fun ordered_keys :: "string list \<Rightarrow> bool" where
  "ordered_keys [] = True"
| "ordered_keys (k # ks) = (list_all (\<lambda>k'. \<not> key_before k' k) ks \<and> ordered_keys ks)"

text \<open>
  Defining a property on an object under construction: a key that the object
  has keeps its place and takes the new value, a new key takes its place in the
  order of enumeration.
\<close>

fun insert_member :: "string \<Rightarrow> jsval \<Rightarrow> (string \<times> jsval) list \<Rightarrow> (string \<times> jsval) list" where
  "insert_member k v [] = [(k, v)]"
| "insert_member k v ((k', v') # kvs) =
     (if key_before k k' then (k, v) # (k', v') # kvs else (k', v') # insert_member k v kvs)"

definition put_member :: "string \<Rightarrow> jsval \<Rightarrow> (string \<times> jsval) list \<Rightarrow> (string \<times> jsval) list" where
  "put_member k v kvs =
     (if map_of kvs k \<noteq> None then map (\<lambda>(k', v'). if k' = k then (k', v) else (k', v')) kvs
      else insert_member k v kvs)"

definition object_of :: "(string \<times> jsval) list \<Rightarrow> jsval" where
  "object_of members = JObj (foldl (\<lambda>obj (k, v). put_member k v obj) [] members)"

fun parse_value :: "nat \<Rightarrow> string \<Rightarrow> (jsval \<times> string) option"
  and parse_elements :: "nat \<Rightarrow> string \<Rightarrow> (jsval list \<times> string) option"
  and parse_members :: "nat \<Rightarrow> string \<Rightarrow> ((string \<times> jsval) list \<times> string) option" where
  "parse_value 0 s = None"
| "parse_value (Suc fuel) s =
     (case skip_ws s of
        [] \<Rightarrow> None
      | c # r \<Rightarrow>
          if c = CHR ''n'' then (if startsWith r ''ull'' then Some (JNull, drop 3 r) else None)
          else if c = CHR ''t'' then (if startsWith r ''rue'' then Some (JBool True, drop 3 r) else None)
          else if c = CHR ''f'' then (if startsWith r ''alse'' then Some (JBool False, drop 4 r) else None)
          else if c = CHR 0x22 then map_option (\<lambda>(t, r'). (JStr t, r')) (parse_chars r)
          else if c = CHR ''['' then
            (if startsWith (skip_ws r) '']'' then Some (JArr [], tl (skip_ws r))
             else map_option (\<lambda>(vs, r'). (JArr vs, r')) (parse_elements fuel r))
          else if c = CHR ''{'' then
            (if startsWith (skip_ws r) ''}'' then Some (JObj [], tl (skip_ws r))
             else map_option (\<lambda>(kvs, r'). (object_of kvs, r')) (parse_members fuel r))
          else parse_number (c # r))"
| "parse_elements 0 s = None"
| "parse_elements (Suc fuel) s =
     (case parse_value fuel s of
        None \<Rightarrow> None
      | Some (v, r) \<Rightarrow>
          (case skip_ws r of
             [] \<Rightarrow> None
           | c # r' \<Rightarrow>
               if c = CHR '','' then map_option (\<lambda>(vs, r''). (v # vs, r'')) (parse_elements fuel r')
               else if c = CHR '']'' then Some ([v], r')
               else None))"
| "parse_members 0 s = None"
| "parse_members (Suc fuel) s =
     (case skip_ws s of
        [] \<Rightarrow> None
      | q # r \<Rightarrow>
          if q \<noteq> CHR 0x22 then None
          else
            (case parse_chars r of
               None \<Rightarrow> None
             | Some (k, r1) \<Rightarrow>
                 (case skip_ws r1 of
                    [] \<Rightarrow> None
                  | c # r2 \<Rightarrow>
                      if c \<noteq> CHR '':'' then None
                      else
                        (case parse_value fuel r2 of
                           None \<Rightarrow> None
                         | Some (v, r3) \<Rightarrow>
                             (case skip_ws r3 of
                                [] \<Rightarrow> None
                              | d # r4 \<Rightarrow>
                                  if d = CHR '','' then
                                    map_option (\<lambda>(kvs, r5). ((k, v) # kvs, r5)) (parse_members fuel r4)
                                  else if d = CHR ''}'' then Some ([(k, v)], r4)
                                  else None)))))"

definition json_parse :: "string \<Rightarrow> jsval completion" where
  "json_parse s =
     (case parse_value (Suc (length s)) s of
        None \<Rightarrow> Inl (mkSyntaxError ''Unexpected token in JSON'')
      | Some (v, rest) \<Rightarrow>
          if skip_ws rest = [] then Inr v
          else Inl (mkSyntaxError ''Unexpected non-whitespace character after JSON''))"

text \<open>
  The values that JSON represents: \<^verbatim>\<open>null\<close>, the truth values, numbers, texts, and
  arrays and plain objects of such values; not \<^verbatim>\<open>undefined\<close>, not an error object,
  not a promise. A number is an integer that the platform represents exactly,
  and the keys of an object are distinct and in the order of enumeration, as
  they are in every object of the platform.
\<close>

definition safe_integer :: "int \<Rightarrow> bool" where
  "safe_integer n = (- 9007199254740992 < n \<and> n < 9007199254740992)"

fun is_json :: "jsval \<Rightarrow> bool"
  and are_json :: "jsval list \<Rightarrow> bool"
  and fields_json :: "(string \<times> jsval) list \<Rightarrow> bool" where
  "is_json JUndefined = False"
| "is_json JNull = True"
| "is_json (JBool b) = True"
| "is_json (JNum n) = safe_integer n"
| "is_json (JStr s) = True"
| "is_json (JArr xs) = are_json xs"
| "is_json (JObj kvs) = (distinct (map fst kvs) \<and> ordered_keys (map fst kvs) \<and> fields_json kvs)"
| "is_json (JError n m) = False"
| "is_json (JPromise f v) = False"
| "are_json [] = True"
| "are_json (x # xs) = (is_json x \<and> are_json xs)"
| "fields_json [] = True"
| "fields_json ((k, v) # kvs) = (is_json v \<and> fields_json kvs)"

fun need :: "jsval \<Rightarrow> nat"
  and need_items :: "jsval list \<Rightarrow> nat"
  and need_fields :: "(string \<times> jsval) list \<Rightarrow> nat" where
  "need (JArr xs) = Suc (need_items xs)"
| "need (JObj kvs) = Suc (need_fields kvs)"
| "need JUndefined = 1"
| "need JNull = 1"
| "need (JBool b) = 1"
| "need (JNum n) = 1"
| "need (JStr s) = 1"
| "need (JError n m) = 1"
| "need (JPromise f v) = 1"
| "need_items [] = 0"
| "need_items (x # xs) = Suc (need x + need_items xs)"
| "need_fields [] = 0"
| "need_fields ((k, v) # kvs) = Suc (need v + need_fields kvs)"

text \<open>What may follow a value inside a JSON text: nothing, a comma, or a closing bracket.\<close>

definition follows :: "string \<Rightarrow> bool" where
  "follows rest = (rest = [] \<or> hd rest = CHR '','' \<or> hd rest = CHR '']'' \<or> hd rest = CHR ''}'')"

section \<open>Predicates of the claims\<close>

text \<open>The events that run stored code.\<close>

fun runs_code :: "event \<Rightarrow> bool" where
  "runs_code (Compiled n c) = True"
| "runs_code (Invoked n a) = True"
| "runs_code e = False"


text \<open>
  The preconditions of \<^verbatim>\<open>createTool\<close> that its first step checks: the name and
  the description are non-empty texts, the name is an identifier, and the schema
  is a value of type object other than \<^verbatim>\<open>null\<close>.
\<close>

definition bad_arguments :: "jsval \<Rightarrow> jsval \<Rightarrow> jsval \<Rightarrow> bool" where
  "bad_arguments n d p =
     (\<not> (typeof n = ''string'' \<and> to_String n \<noteq> [] \<and> typeof d = ''string'' \<and> to_String d \<noteq> []
         \<and> valid_tool_name (to_String n) \<and> truthy p \<and> typeof p = ''object''))"

text \<open>
  The list of required parameters that \<^verbatim>\<open>executeTool\<close> checks for a tool: the
  static list for the reserved tool, the \<^verbatim>\<open>required\<close> array of the stored schema
  otherwise.
\<close>

definition required_parameters :: "env \<Rightarrow> store \<Rightarrow> string \<Rightarrow> jsval list option" where
  "required_parameters E db toolName =
     (if toolName = TOOL_CREATION_NAME then Some TOOL_CREATION_REQUIRED
      else case getToolDefinition E db toolName of
             None \<Rightarrow> None
           | Some td \<Rightarrow>
               (case propOf (td_parameters td) ''required'' of
                  JArr required \<Rightarrow> Some required
                | _ \<Rightarrow> None))"

text \<open>
  \<^verbatim>\<open>args[param]\<close> is \<^verbatim>\<open>undefined\<close> or \<^verbatim>\<open>null\<close>, or the read fails: \<^verbatim>\<open>args\<close> neither
  holds nor inherits a value under that name.
\<close>

definition absent_in :: "env \<Rightarrow> jsval \<Rightarrow> jsval \<Rightarrow> bool" where
  "absent_in E args param =
     (case read_prop E args (to_String param) of Inl e \<Rightarrow> True | Inr p \<Rightarrow> absent p)"

text \<open>
  A query result that \<^verbatim>\<open>getAvailableTools\<close> can list: its metadata is complete
  and its serialized schema parses.
\<close>

definition usable :: "env \<Rightarrow> string \<times> jsval \<Rightarrow> bool" where
  "usable E r = (case r of (i, md) \<Rightarrow>
     complete_result md \<and> \<not> isl (JSON_parse E (to_String (propOf md ''parameters_json''))))"

section \<open>Concrete scenarios\<close>

text \<open>
  The platform of the scenarios is an engine of ECMAScript 2020, the edition of
  the optional chaining that the source uses. Every value other than \<^verbatim>\<open>null\<close> and
  \<^verbatim>\<open>undefined\<close> inherits the members of \<^verbatim>\<open>Object.prototype\<close>, the legacy ones
  included. An array, a text, a number and a promise inherit the members of
  their own prototype besides; the lists give the names that \<^verbatim>\<open>Object.prototype\<close>
  does not have already. An error has a \<^verbatim>\<open>stack\<close> as well.
\<close>

definition Object_prototype :: "string list" where
  "Object_prototype =
     [''constructor'', ''__defineGetter__'', ''__defineSetter__'', ''hasOwnProperty'',
      ''__lookupGetter__'', ''__lookupSetter__'', ''isPrototypeOf'', ''propertyIsEnumerable'',
      ''toString'', ''valueOf'', ''__proto__'', ''toLocaleString'']"

definition Array_prototype :: "string list" where
  "Array_prototype =
     [''concat'', ''copyWithin'', ''entries'', ''every'', ''fill'', ''filter'', ''find'', ''findIndex'',
      ''flat'', ''flatMap'', ''forEach'', ''includes'', ''indexOf'', ''join'', ''keys'', ''lastIndexOf'',
      ''map'', ''pop'', ''push'', ''reduce'', ''reduceRight'', ''reverse'', ''shift'', ''slice'', ''some'',
      ''sort'', ''splice'', ''unshift'', ''values'']"

definition String_prototype :: "string list" where
  "String_prototype =
     [''anchor'', ''big'', ''blink'', ''bold'', ''charAt'', ''charCodeAt'', ''codePointAt'', ''concat'',
      ''endsWith'', ''fixed'', ''fontcolor'', ''fontsize'', ''includes'', ''indexOf'', ''italics'',
      ''lastIndexOf'', ''link'', ''localeCompare'', ''match'', ''matchAll'', ''normalize'', ''padEnd'',
      ''padStart'', ''repeat'', ''replace'', ''search'', ''slice'', ''small'', ''split'', ''startsWith'',
      ''strike'', ''sub'', ''substr'', ''substring'', ''sup'', ''toLocaleLowerCase'',
      ''toLocaleUpperCase'', ''toLowerCase'', ''toUpperCase'', ''trim'', ''trimEnd'', ''trimLeft'',
      ''trimRight'', ''trimStart'']"

definition Number_prototype :: "string list" where
  "Number_prototype = [''toExponential'', ''toFixed'', ''toPrecision'']"

definition Promise_prototype :: "string list" where
  "Promise_prototype = [''then'', ''catch'', ''finally'']"

definition standard_members :: "jsval \<Rightarrow> string \<Rightarrow> bool" where
  "standard_members v k =
     (k \<in> set Object_prototype
      \<or> (case v of
            JArr xs \<Rightarrow> k \<in> set Array_prototype
          | JStr s \<Rightarrow> k \<in> set String_prototype
          | JNum n \<Rightarrow> k \<in> set Number_prototype
          | JError n m \<Rightarrow> k = ''stack''
          | JPromise f x \<Rightarrow> k \<in> set Promise_prototype
          | _ \<Rightarrow> False))"

text \<open>
  Scenario A of the specification, used to instantiate the theorems below: the
  chat model answers a fenced \<^verbatim>\<open>greet_soul\<close> function, the engine accepts it and
  runs it, the JSON codec is the one above, and the collection works.
  \<open>greet_json\<close> and \<open>greet_json_pretty\<close> are the texts that \<^verbatim>\<open>JSON.stringify\<close> gives
  for the schema, without and with a gap of 2.
\<close>

definition greet_schema :: jsval where
  "greet_schema =
     JObj [(''type'', JStr ''object''),
           (''properties'', JObj [(''name'', JObj [(''type'', JStr ''string'')])]),
           (''required'', JArr [JStr ''name''])]"

definition greet_json :: string where
  "greet_json = ''{\"type\":\"object\",\"properties\":{\"name\":{\"type\":\"string\"}},\"required\":[\"name\"]}''"

definition greet_json_pretty :: string where
  "greet_json_pretty =
     ''{'' @ nl @ ''  \"type\": \"object\",'' @ nl @ ''  \"properties\": {'' @ nl
     @ ''    \"name\": {'' @ nl @ ''      \"type\": \"string\"'' @ nl @ ''    }'' @ nl @ ''  },'' @ nl
     @ ''  \"required\": ['' @ nl @ ''    \"name\"'' @ nl @ ''  ]'' @ nl @ ''}''"

definition greet_description :: string where
  "greet_description = ''Return a greeting for a soul name''"

definition greet_code :: string where
  "greet_code = ''function greet_soul(params) { return \"Hello, \" + params.name; }''"

definition greet_function :: "jsval \<Rightarrow> jsval completion" where
  "greet_function params =
     (case get_prop params ''name'' of
        Inl e \<Rightarrow> Inl e
      | Inr v \<Rightarrow> Inr (JStr (''Hello, '' @ to_String v)))"

definition demo_env :: env where
  "demo_env =
     \<lparr> chat_content = (\<lambda>prompt. Inr (JStr (''```javascript'' @ nl @ greet_code @ nl @ ''```''))),
       embedQuery = (\<lambda>t. Inr [1, 0, 0]),
       syntax_error = (\<lambda>c. if c = greet_code then None else Some ''Unexpected token''),
       compile = (\<lambda>n c. if n = ''greet_soul'' \<and> c = greet_code
                          then Body (\<lambda>params. Defines greet_function)
                          else SyntaxErr ''Unexpected token''),
       JSON_stringify = json_stringify,
       JSON_parse = json_parse,
       db_get_error = None,
       db_add_error = None,
       db_query_error = None,
       db_rank = (\<lambda>v. [''greet_soul'', ''tool_creation'']),
       inherited = standard_members \<rparr>"

definition demo_store :: store where
  "demo_store =
     [''greet_soul'' \<mapsto>
        created_entry demo_env [1, 0, 0] (JStr ''greet_soul'') (JStr greet_description) greet_schema greet_code]"

text \<open>A collection with a record whose serialized schema is corrupt, next to a good one.\<close>

definition corrupt_store :: store where
  "corrupt_store = demo_store(''broken'' \<mapsto>
     \<lparr> embedding = [0, 1, 0],
       metadata = JObj [(''name'', JStr ''broken''), (''description'', JStr ''A tool with a corrupt schema''),
                        (''parameters_json'', JStr ''{not json''), (''code'', JStr ''function broken(params) {}''),
                        (''is_internal'', JBool False)],
       document = ''Tool definition for broken: A tool with a corrupt schema'' \<rparr>)"

definition corrupt_env :: env where
  "corrupt_env = demo_env\<lparr>db_rank := \<lambda>v. [''broken'', ''greet_soul'']\<rparr>"

text \<open>A chat model that answers a function of another name.\<close>

definition stubborn_env :: env where
  "stubborn_env = demo_env\<lparr>chat_content := \<lambda>prompt. Inr (JStr ''function hello(params) { return 1; }'')\<rparr>"

text \<open>
  Schemas of the type \<^verbatim>\<open>object\<close> whose \<^verbatim>\<open>properties\<close> are not a mapping: there are
  none, they are \<^verbatim>\<open>null\<close>, they are an array.
\<close>

definition bare_schema :: jsval where
  "bare_schema = JObj [(''type'', JStr ''object'')]"

definition null_schema :: jsval where
  "null_schema = JObj [(''type'', JStr ''object''), (''properties'', JNull)]"

definition list_schema :: jsval where
  "list_schema = JObj [(''type'', JStr ''object''), (''properties'', JArr [])]"

definition list_json :: string where
  "list_json = ''{\"type\":\"object\",\"properties\":[]}''"

text \<open>The arguments that create a tool \<^verbatim>\<open>fly\<close> through the reserved tool.\<close>

definition fly_args :: "jsval \<Rightarrow> jsval" where
  "fly_args schema =
     JObj [(''new_tool_name'', JStr ''fly''), (''new_tool_description'', JStr ''Let a soul fly''),
           (''new_tool_parameters'', schema)]"


text \<open>
  A tool with a required parameter named \<^verbatim>\<open>toString\<close>, as every object inherits a
  member. The tool returns a fixed text.
\<close>

definition stamp_code :: string where
  "stamp_code = ''function stamp(params) { return \"stamped\"; }''"

definition stamp_schema :: jsval where
  "stamp_schema =
     JObj [(''type'', JStr ''object''),
           (''properties'', JObj [(''toString'', JObj [(''type'', JStr ''string'')])]),
           (''required'', JArr [JStr ''toString''])]"

definition stamp_json :: string where
  "stamp_json = ''{\"type\":\"object\",\"properties\":{\"toString\":{\"type\":\"string\"}},\"required\":[\"toString\"]}''"

definition stamp_function :: "jsval \<Rightarrow> jsval completion" where
  "stamp_function params = Inr (JStr ''stamped'')"

definition stamp_env :: env where
  "stamp_env =
     demo_env\<lparr> chat_content := \<lambda>prompt. Inr (JStr stamp_code),
               syntax_error := \<lambda>c. if c = stamp_code then None else Some ''Unexpected token'',
               compile := \<lambda>n c. if n = ''stamp'' \<and> c = stamp_code
                                 then Body (\<lambda>params. Defines stamp_function)
                                 else SyntaxErr ''Unexpected token'' \<rparr>"

definition stamp_store :: store where
  "stamp_store =
     [''stamp'' \<mapsto> created_entry stamp_env [1, 0, 0] (JStr ''stamp'') (JStr ''Stamp a document'')
                       stamp_schema stamp_code]"

text \<open>
  A tool that the chat model wrote as an asynchronous function whose body throws.
  \<^verbatim>\<open>createTool\<close> accepts the signature, and calling the function returns a
  rejected promise.
\<close>

definition risky_code :: string where
  "risky_code = ''async function risky(params) { throw new Error(\"boom\"); }''"

definition risky_schema :: jsval where
  "risky_schema = JObj [(''type'', JStr ''object''), (''properties'', JObj [])]"

definition risky_json :: string where
  "risky_json = ''{\"type\":\"object\",\"properties\":{}}''"

definition risky_function :: "jsval \<Rightarrow> jsval completion" where
  "risky_function params = Inr (JPromise False (mkError ''boom''))"

definition async_env :: env where
  "async_env =
     demo_env\<lparr> chat_content := \<lambda>prompt. Inr (JStr risky_code),
               syntax_error := \<lambda>c. if c = risky_code then None else Some ''Unexpected token'',
               compile := \<lambda>n c. if n = ''risky'' \<and> c = risky_code
                                 then Body (\<lambda>params. Defines risky_function)
                                 else SyntaxErr ''Unexpected token'' \<rparr>"

definition async_store :: store where
  "async_store =
     [''risky'' \<mapsto> created_entry async_env [1, 0, 0] (JStr ''risky'') (JStr ''Take a risk'')
                       risky_schema risky_code]"

section \<open>The JSON codec round-trips\<close>

subsection \<open>Strings\<close>

lemma position_nth: "distinct xs \<Longrightarrow> n < length xs \<Longrightarrow> position (xs ! n) xs = Some n"
proof (induction xs arbitrary: n)
  case Nil
  then show ?case by simp
next
  case (Cons x xs)
  show ?case
  proof (cases n)
    case 0
    then show ?thesis by simp
  next
    case (Suc m)
    with Cons.prems have "xs ! m \<noteq> x" by auto
    with Suc Cons show ?thesis by auto
  qed
qed

lemma hex_value_digit: "n < 16 \<Longrightarrow> hex_value (hex_digits ! n) = Some n"
proof -
  assume n: "n < 16"
  have "distinct hex_digits" by (simp add: hex_digits_def)
  moreover have "length hex_digits = 16" by (simp add: hex_digits_def)
  ultimately have "position (hex_digits ! n) hex_digits = Some n" using n by (simp add: position_nth)
  then show ?thesis by (simp add: hex_value_def)
qed

lemma code_unit_control:
  assumes "(of_char c :: nat) < 32"
  shows "code_unit CHR ''0'' CHR ''0'' (hex_digits ! (of_char c div 16)) (hex_digits ! (of_char c mod 16)) = Some c"
proof -
  have z: "hex_value CHR ''0'' = Some 0" using hex_value_digit [of 0] by (simp add: hex_digits_def)
  from assms have "(of_char c :: nat) div 16 < 16" by simp
  then have h1: "hex_value (hex_digits ! (of_char c div 16)) = Some (of_char c div 16)"
    by (rule hex_value_digit)
  have h0: "hex_value (hex_digits ! (of_char c mod 16)) = Some (of_char c mod 16)"
    by (rule hex_value_digit) simp
  have "char_of (16 * ((of_char c :: nat) div 16) + of_char c mod 16) = c" by simp
  with z h1 h0 show ?thesis by (simp add: code_unit_def)
qed

lemma parse_chars_Cons:
  "parse_chars (c # t) =
     (if c = CHR 0x22 then Some ([], t)
      else case t of
        [] \<Rightarrow> None
      | e # r \<Rightarrow>
          if c = CHR 0x5C then
            (if e = CHR ''u'' then
               (case r of
                  a # b # c # d # r' \<Rightarrow> consume (code_unit a b c d) (parse_chars r')
                | _ \<Rightarrow> None)
             else consume (unescape e) (parse_chars r))
          else if (of_char c :: nat) < 32 then None
          else consume (Some c) (parse_chars t))"
  by (cases t) auto

lemma parse_escape_char:
  assumes "parse_chars t = Some (s, rest)"
  shows "parse_chars (escape_char c @ t) = Some (c # s, rest)"
proof -
  from assms obtain e r where t: "t = e # r" by (cases t) auto
  consider (quote) "c = CHR 0x22" | (backslash) "c = CHR 0x5C"
    | (short) "c \<in> {CHR 0x08, CHR 0x09, CHR 0x0A, CHR 0x0C, CHR 0x0D}"
    | (control) "c \<notin> {CHR 0x22, CHR 0x5C, CHR 0x08, CHR 0x09, CHR 0x0A, CHR 0x0C, CHR 0x0D}" "(of_char c :: nat) < 32"
    | (plain) "c \<notin> {CHR 0x22, CHR 0x5C, CHR 0x08, CHR 0x09, CHR 0x0A, CHR 0x0C, CHR 0x0D}" "\<not> (of_char c :: nat) < 32"
    by blast
  then show ?thesis
  proof cases
    case quote
    with assms show ?thesis by (simp add: escape_char_def unescape_def consume_def)
  next
    case backslash
    with assms show ?thesis by (simp add: escape_char_def unescape_def consume_def)
  next
    case short
    with assms show ?thesis by (auto simp: escape_char_def unescape_def consume_def)
  next
    case control
    with assms code_unit_control [OF control(2)] show ?thesis
      by (simp add: escape_char_def consume_def)
  next
    case plain
    with assms t show ?thesis by (simp add: escape_char_def parse_chars_Cons consume_def)
  qed
qed

lemma parse_chars_escaped:
  "parse_chars (concat (map escape_char s) @ CHR 0x22 # rest) = Some (s, rest)"
proof (induction s)
  case Nil
  show ?case by (simp add: parse_chars_Cons)
next
  case (Cons c s)
  then show ?case by (simp add: parse_escape_char)
qed

lemma parse_quoted: "\<exists>t. json_quote s @ rest = CHR 0x22 # t \<and> parse_chars t = Some (s, rest)"
  by (simp add: json_quote_def parse_chars_escaped)

subsection \<open>Numbers\<close>

lemma int_of_digits_append: "int_of_digits acc (ds @ [d]) = 10 * int_of_digits acc ds + (of_char d - 48)"
  by (induction ds arbitrary: acc) simp_all

lemma of_char_digit: "d < 10 \<Longrightarrow> (of_char (digit_char d) :: int) = 48 + int d"
proof -
  assume "d < 10"
  then have "(of_char (digit_char d) :: nat) = 48 + d" by (simp add: digit_char_def)
  then have "int (of_char (digit_char d)) = 48 + int d" by simp
  then show ?thesis by (simp only: of_nat_of_char)
qed

lemma int_of_digits_decimal: "0 \<le> n \<Longrightarrow> int_of_digits 0 (decimal n) = n"
proof (induction n rule: decimal.induct)
  case (1 n)
  show ?case
  proof (cases "10 \<le> n")
    case False
    with "1.prems" have "nat n < 10" by simp
    from of_char_digit [OF this] "1.prems" False show ?thesis
      by (subst decimal.simps) simp
  next
    case True
    have "nat (n mod 10) < 10" by simp
    from of_char_digit [OF this] have d: "(of_char (digit_char (nat (n mod 10))) :: int) = 48 + n mod 10"
      by simp
    from True 1 have "int_of_digits 0 (decimal (n div 10)) = n div 10" by simp
    with True d show ?thesis
      by (subst decimal.simps) (simp add: int_of_digits_append)
  qed
qed

lemma is_digit_char: "d < 10 \<Longrightarrow> is_digit (digit_char d)"
  by (simp add: is_digit_def digit_char_def)

lemma digits_decimal: "0 \<le> n \<Longrightarrow> list_all is_digit (decimal n)"
proof (induction n rule: decimal.induct)
  case (1 n)
  show ?case
  proof (cases "10 \<le> n")
    case False
    with "1.prems" have "nat n < 10" by simp
    from is_digit_char [OF this] False show ?thesis by (subst decimal.simps) simp
  next
    case True
    have "is_digit (digit_char (nat (n mod 10)))" by (rule is_digit_char) simp
    with True 1 show ?thesis by (subst decimal.simps) simp
  qed
qed

lemma decimal_nonempty: "decimal n \<noteq> []"
  by (subst decimal.simps) simp

lemma digit_char_0: "digit_char 0 = CHR ''0''"
  by code_simp

lemma digit_char_eq_0: "d < 10 \<Longrightarrow> (digit_char d = CHR ''0'') = (d = 0)"
proof -
  assume d: "d < 10"
  have "(of_char (digit_char d) :: int) = 48 + int d" using d by (rule of_char_digit)
  moreover have "(of_char CHR ''0'' :: int) = 48" by simp
  ultimately show ?thesis by (auto simp: digit_char_0)
qed

lemma hd_decimal: "0 < n \<Longrightarrow> hd (decimal n) \<noteq> CHR ''0''"
proof (induction n rule: decimal.induct)
  case (1 n)
  show ?case
  proof (cases "10 \<le> n")
    case False
    with "1.prems" have "nat n < 10" "nat n \<noteq> 0" by simp_all
    with False show ?thesis by (subst decimal.simps) (simp add: digit_char_eq_0)
  next
    case True
    then have "0 < n div 10" by simp
    with True 1 have "hd (decimal (n div 10)) \<noteq> CHR ''0''" by simp
    with True decimal_nonempty [of "n div 10"] show ?thesis
      by (subst decimal.simps) simp
  qed
qed

lemma decimal_0: "decimal 0 = ''0''"
  by (subst decimal.simps) (simp add: digit_char_0)

lemma follows_not_digit: "follows rest \<Longrightarrow> rest = [] \<or> \<not> is_digit (hd rest)"
  by (auto simp: follows_def is_digit_def)

lemma takeWhile_digits:
  assumes "list_all is_digit ds" "rest = [] \<or> \<not> is_digit (hd rest)"
  shows "takeWhile is_digit (ds @ rest) = ds" "dropWhile is_digit (ds @ rest) = rest"
proof -
  from assms(1) have a: "\<forall>x \<in> set ds. is_digit x" by (simp add: list_all_iff)
  from assms(2) have t: "takeWhile is_digit rest = []" by (cases rest) auto
  from assms(2) have d: "dropWhile is_digit rest = rest" by (cases rest) auto
  from a t show "takeWhile is_digit (ds @ rest) = ds" by (simp add: takeWhile_append2)
  from a d show "dropWhile is_digit (ds @ rest) = rest" by (simp add: dropWhile_append2)
qed

lemma parse_number_decimal:
  assumes "follows rest" "0 \<le> n"
  shows "parse_number (decimal n @ rest) = Some (JNum n, rest)"
proof -
  let ?ds = "decimal n"
  have ne: "?ds \<noteq> []" by (rule decimal_nonempty)
  have dg: "list_all is_digit ?ds" using assms(2) by (rule digits_decimal)
  then have "is_digit (hd ?ds)" using ne by (cases ?ds) auto
  then have nm: "hd ?ds \<noteq> CHR ''-''" by (auto simp: is_digit_def)
  have hd: "hd (?ds @ rest) = hd ?ds" using ne by simp
  from takeWhile_digits [OF dg follows_not_digit [OF assms(1)]]
  have tw: "takeWhile is_digit (?ds @ rest) = ?ds" "dropWhile is_digit (?ds @ rest) = rest" .
  have lead: "\<not> (length ?ds > 1 \<and> hd ?ds = CHR ''0'')"
  proof (cases "n = 0")
    case True
    then show ?thesis by (simp add: decimal_0)
  next
    case False
    with assms(2) have "0 < n" by simp
    from hd_decimal [OF this] show ?thesis by simp
  qed
  have fr: "\<not> (rest \<noteq> [] \<and> hd rest \<in> set ''.eE'')" using assms(1) by (auto simp: follows_def)
  from ne nm hd tw lead fr show ?thesis
    by (simp add: parse_number_def Let_def int_of_digits_decimal [OF assms(2)])
qed

lemma parse_number_int:
  assumes "follows rest"
  shows "parse_number (string_of_int i @ rest) = Some (JNum i, rest)"
proof (cases "i < 0")
  case False
  then have "0 \<le> i" by simp
  from parse_number_decimal [OF assms this] False show ?thesis by (simp add: string_of_int_def)
next
  case True
  let ?ds = "decimal (- i)"
  from True have pos: "0 < - i" "0 \<le> - i" by simp_all
  have ne: "?ds \<noteq> []" by (rule decimal_nonempty)
  have dg: "list_all is_digit ?ds" using pos(2) by (rule digits_decimal)
  from takeWhile_digits [OF dg follows_not_digit [OF assms]]
  have tw: "takeWhile is_digit (?ds @ rest) = ?ds" "dropWhile is_digit (?ds @ rest) = rest" .
  have lead: "\<not> (length ?ds > 1 \<and> hd ?ds = CHR ''0'')" using hd_decimal [OF pos(1)] by simp
  have fr: "\<not> (rest \<noteq> [] \<and> hd rest \<in> set ''.eE'')" using assms by (auto simp: follows_def)
  from True ne tw lead fr show ?thesis
    by (simp add: parse_number_def Let_def string_of_int_def int_of_digits_decimal [OF pos(2)])
qed

subsection \<open>Values\<close>

lemma skip_ws_start: "\<not> is_ws c \<Longrightarrow> skip_ws (c # r) = c # r"
  by (simp add: skip_ws_def)

lemma digit_not_special:
  assumes "is_digit c \<or> c = CHR ''-''"
  shows "\<not> is_ws c" "c \<noteq> CHR ''n''" "c \<noteq> CHR ''t''" "c \<noteq> CHR ''f''" "c \<noteq> CHR 0x22"
    "c \<noteq> CHR ''[''" "c \<noteq> CHR ''{''" "c \<noteq> CHR '']''" "c \<noteq> CHR ''}''"
  using assms by (auto simp: is_digit_def is_ws_def)

lemma string_of_int_start: "\<exists>c r. string_of_int i = c # r \<and> (is_digit c \<or> c = CHR ''-'')"
proof (cases "i < 0")
  case True
  then show ?thesis by (simp add: string_of_int_def)
next
  case False
  let ?ds = "decimal i"
  from decimal_nonempty [of i] obtain c r where cr: "?ds = c # r" by (cases ?ds) auto
  from False have "0 \<le> i" by simp
  from digits_decimal [OF this] cr have "is_digit c" by simp
  with cr False show ?thesis by (simp add: string_of_int_def)
qed

lemma parse_value_number:
  assumes "follows rest"
  shows "parse_value (Suc fuel) (string_of_int i @ rest) = Some (JNum i, rest)"
proof -
  from string_of_int_start [of i] obtain c r where cr: "string_of_int i = c # r"
    "is_digit c \<or> c = CHR ''-''" by blast
  from parse_number_int [OF assms, of i] cr(1)
  have p: "parse_number (c # r @ rest) = Some (JNum i, rest)" by simp
  from digit_not_special [OF cr(2)] cr(1) p show ?thesis
    by (simp add: skip_ws_start)
qed

lemma parse_value_string: "parse_value (Suc fuel) (json_quote s @ rest) = Some (JStr s, rest)"
proof -
  have "\<not> is_ws (CHR 0x22)" by (simp add: is_ws_def)
  then have "skip_ws (CHR 0x22 # concat (map escape_char s) @ CHR 0x22 # rest)
             = CHR 0x22 # concat (map escape_char s) @ CHR 0x22 # rest"
    by (rule skip_ws_start)
  then show ?thesis
    by (simp add: json_quote_def parse_chars_escaped)
qed

lemma parse_value_literal:
  "parse_value (Suc fuel) (''null'' @ rest) = Some (JNull, rest)"
  "parse_value (Suc fuel) (''true'' @ rest) = Some (JBool True, rest)"
  "parse_value (Suc fuel) (''false'' @ rest) = Some (JBool False, rest)"
  by (simp_all add: skip_ws_def is_ws_def startsWith_def)

lemma json_text_start:
  assumes "is_json v"
  shows "\<exists>c r. json_text 0 0 v = c # r \<and> \<not> is_ws c \<and> c \<noteq> CHR '']'' \<and> c \<noteq> CHR ''}''"
proof (cases v)
  case (JNum i)
  from string_of_int_start [of i] obtain c r where cr: "string_of_int i = c # r"
    "is_digit c \<or> c = CHR ''-''" by blast
  from digit_not_special [OF cr(2)] cr(1) JNum show ?thesis by simp
next
  case (JArr xs)
  then show ?thesis by (simp add: brackets_def is_ws_def)
next
  case (JObj kvs)
  then show ?thesis by (simp add: brackets_def is_ws_def)
qed (use assms in \<open>simp_all add: is_ws_def json_quote_def\<close>)

lemma json_items_json: "are_json xs \<Longrightarrow> json_items 0 0 xs = map (json_text 0 0) xs"
  by (induction xs) auto

lemma json_fields_json:
  "fields_json kvs \<Longrightarrow> json_fields 0 0 kvs = map (\<lambda>(k, v). json_quote k @ '':'' @ json_text 0 0 v) kvs"
  by (induction kvs) auto

lemma insert_member_last:
  "list_all (\<lambda>k'. \<not> key_before k k') (map fst kvs) \<Longrightarrow> insert_member k v kvs = kvs @ [(k, v)]"
  by (induction kvs) auto

lemma put_member_new:
  assumes "k \<notin> fst ` set kvs" "list_all (\<lambda>k'. \<not> key_before k k') (map fst kvs)"
  shows "put_member k v kvs = kvs @ [(k, v)]"
proof -
  from assms(1) have "map_of kvs k = None" by (simp add: map_of_eq_None_iff)
  with insert_member_last [OF assms(2)] show ?thesis by (simp add: put_member_def)
qed

lemma ordered_keys_append:
  "ordered_keys (ks @ k # ks') \<Longrightarrow> list_all (\<lambda>k'. \<not> key_before k k') ks"
  by (induction ks) auto

lemma foldl_put_member:
  "distinct (map fst (acc @ kvs)) \<Longrightarrow> ordered_keys (map fst (acc @ kvs))
   \<Longrightarrow> foldl (\<lambda>obj (k, v). put_member k v obj) acc kvs = acc @ kvs"
proof (induction kvs arbitrary: acc)
  case Nil
  show ?case by simp
next
  case (Cons kv kvs)
  obtain k v where kv: "kv = (k, v)" by (cases kv)
  from Cons.prems(1) kv have new: "k \<notin> fst ` set acc" by auto
  from Cons.prems(2) kv have "ordered_keys (map fst acc @ k # map fst kvs)" by simp
  then have "list_all (\<lambda>k'. \<not> key_before k k') (map fst acc)" by (rule ordered_keys_append)
  with new have p: "put_member k v acc = acc @ [(k, v)]" by (rule put_member_new)
  from Cons.prems kv have "distinct (map fst ((acc @ [(k, v)]) @ kvs))"
    "ordered_keys (map fst ((acc @ [(k, v)]) @ kvs))" by simp_all
  from Cons.IH [OF this] p kv show ?case by simp
qed

lemma object_of_distinct:
  "distinct (map fst kvs) \<Longrightarrow> ordered_keys (map fst kvs) \<Longrightarrow> object_of kvs = JObj kvs"
  using foldl_put_member [of "[]" kvs] by (simp add: object_of_def)

lemma separated_Cons: "separated sep (x # xs) = x @ (if xs = [] then [] else sep @ separated sep xs)"
  by simp

lemma not_ws_punct: "\<not> is_ws (CHR '','')" "\<not> is_ws (CHR '']'')" "\<not> is_ws (CHR ''}'')" "\<not> is_ws (CHR '':'')"
  "\<not> is_ws (CHR 0x22)" "\<not> is_ws (CHR ''['')" "\<not> is_ws (CHR ''{'')"
  by (simp_all add: is_ws_def)

lemma items_start:
  assumes "are_json xs" "xs \<noteq> []"
  shows "\<exists>c t. separated '','' (json_items 0 0 xs) @ tail = c # t \<and> \<not> is_ws c \<and> c \<noteq> CHR '']''"
proof -
  from assms obtain x xs' where x: "xs = x # xs'" "is_json x" by (cases xs) auto
  from json_text_start [OF x(2)] obtain c r where "json_text 0 0 x = c # r" "\<not> is_ws c" "c \<noteq> CHR '']''"
    by blast
  with x show ?thesis by auto
qed

lemma fields_start:
  assumes "fields_json kvs" "kvs \<noteq> []"
  shows "\<exists>t. separated '','' (json_fields 0 0 kvs) @ tail = CHR 0x22 # t"
proof -
  from assms obtain k v kvs' where x: "kvs = (k, v) # kvs'" "is_json v" by (cases kvs) auto
  then have "v \<noteq> JUndefined" by auto
  with x show ?thesis by (simp add: json_quote_def)
qed

lemma parse_elements_step:
  assumes "parse_value fuel (t @ tail) = Some (x, tail)"
  shows "tail = CHR '']'' # rest \<Longrightarrow> parse_elements (Suc fuel) (t @ tail) = Some ([x], rest)"
    and "tail = CHR '','' # others \<Longrightarrow> parse_elements fuel others = Some (xs, rest)
         \<Longrightarrow> parse_elements (Suc fuel) (t @ tail) = Some (x # xs, rest)"
  using assms by (simp_all add: skip_ws_start not_ws_punct)

lemma parse_members_step:
  assumes "parse_value fuel (t @ tail) = Some (v, tail)"
  shows "tail = CHR ''}'' # rest
         \<Longrightarrow> parse_members (Suc fuel) (json_quote k @ '':'' @ t @ tail) = Some ([(k, v)], rest)"
    and "tail = CHR '','' # others \<Longrightarrow> parse_members fuel others = Some (kvs, rest)
         \<Longrightarrow> parse_members (Suc fuel) (json_quote k @ '':'' @ t @ tail) = Some ((k, v) # kvs, rest)"
  using assms by (simp_all add: json_quote_def skip_ws_start not_ws_punct parse_chars_escaped)

lemma follows_punct: "follows (CHR '','' # r)" "follows (CHR '']'' # r)" "follows (CHR ''}'' # r)"
  by (simp_all add: follows_def)

lemma parse_roundtrip:
  "is_json v \<Longrightarrow> need v \<le> fuel \<Longrightarrow> follows rest
     \<Longrightarrow> parse_value fuel (json_text 0 0 v @ rest) = Some (v, rest)"
  "are_json xs \<Longrightarrow> xs \<noteq> [] \<Longrightarrow> need_items xs \<le> fuel
     \<Longrightarrow> parse_elements fuel (separated '','' (json_items 0 0 xs) @ CHR '']'' # rest) = Some (xs, rest)"
  "fields_json kvs \<Longrightarrow> kvs \<noteq> [] \<Longrightarrow> need_fields kvs \<le> fuel
     \<Longrightarrow> parse_members fuel (separated '','' (json_fields 0 0 kvs) @ CHR ''}'' # rest) = Some (kvs, rest)"
proof (induction v and xs and kvs arbitrary: fuel rest and fuel rest and fuel rest
    rule: is_json_are_json_fields_json.induct)
  case 1
  then show ?case by simp
next
  case 2
  then obtain f where "fuel = Suc f" by (cases fuel) auto
  with parse_value_literal(1) [of f rest] show ?case by simp
next
  case (3 b)
  then obtain f where "fuel = Suc f" by (cases fuel) auto
  with parse_value_literal(2,3) [of f rest] show ?case by simp
next
  case (4 n)
  then obtain f where "fuel = Suc f" by (cases fuel) auto
  with parse_value_number [OF "4.prems"(3), of f n] show ?case by simp
next
  case (5 s)
  then obtain f where "fuel = Suc f" by (cases fuel) auto
  with parse_value_string [of f s rest] show ?case by simp
next
  case (6 xs)
  from "6.prems" obtain f where f: "fuel = Suc f" "need_items xs \<le> f" by (cases fuel) auto
  from "6.prems" have j: "are_json xs" by simp
  show ?case
  proof (cases "xs = []")
    case True
    with f show ?thesis by (simp add: brackets_def skip_ws_start not_ws_punct startsWith_def)
  next
    case False
    from "6.IH" [OF j False f(2)]
    have p: "parse_elements f (separated '','' (json_items 0 0 xs) @ CHR '']'' # rest) = Some (xs, rest)" .
    from items_start [OF j False] obtain c t where
      s: "separated '','' (json_items 0 0 xs) @ CHR '']'' # rest = c # t" "\<not> is_ws c" "c \<noteq> CHR '']''"
      by blast
    from False j have ne: "json_items 0 0 xs \<noteq> []" by (simp add: json_items_json)
    have "parse_value (Suc f) (CHR ''['' # (separated '','' (json_items 0 0 xs) @ CHR '']'' # rest))
          = Some (JArr xs, rest)"
      using p s by (simp add: skip_ws_start not_ws_punct startsWith_def)
    with ne f show ?thesis by (simp add: brackets_def)
  qed
next
  case (7 kvs)
  from "7.prems" obtain f where f: "fuel = Suc f" "need_fields kvs \<le> f" by (cases fuel) auto
  from "7.prems" have j: "fields_json kvs" "distinct (map fst kvs)" "ordered_keys (map fst kvs)"
    by simp_all
  show ?case
  proof (cases "kvs = []")
    case True
    with f show ?thesis by (simp add: brackets_def skip_ws_start not_ws_punct startsWith_def)
  next
    case False
    from "7.IH" j False f(2)
    have p: "parse_members f (separated '','' (json_fields 0 0 kvs) @ CHR ''}'' # rest) = Some (kvs, rest)"
      by simp
    from fields_start [OF j(1) False] obtain t where
      s: "separated '','' (json_fields 0 0 kvs) @ CHR ''}'' # rest = CHR 0x22 # t" by blast
    from False j(1) have ne: "json_fields 0 0 kvs \<noteq> []" by (simp add: json_fields_json)
    have "parse_value (Suc f) (CHR ''{'' # (separated '','' (json_fields 0 0 kvs) @ CHR ''}'' # rest))
          = Some (JObj kvs, rest)"
      using p s by (simp add: skip_ws_start not_ws_punct startsWith_def object_of_distinct [OF j(2,3)])
    with ne f show ?thesis by (simp add: brackets_def)
  qed
next
  case 8
  then show ?case by simp
next
  case 9
  then show ?case by simp
next
  case 10
  then show ?case by simp
next
  case (11 x xs)
  from "11.prems" obtain f where f: "fuel = Suc f" "need x \<le> f" "need_items xs \<le> f"
    by (cases fuel) auto
  from "11.prems" have j: "is_json x" "are_json xs" by simp_all
  then have u: "x \<noteq> JUndefined" by auto
  show ?case
  proof (cases "xs = []")
    case True
    from "11.IH"(1) [OF j(1) f(2) follows_punct(2)]
    have "parse_value f (json_text 0 0 x @ CHR '']'' # rest) = Some (x, CHR '']'' # rest)" .
    from parse_elements_step(1) [OF this refl] True u f(1) show ?thesis by simp
  next
    case False
    from False j(2) have ne: "json_items 0 0 xs \<noteq> []" by (simp add: json_items_json)
    let ?others = "separated '','' (json_items 0 0 xs) @ CHR '']'' # rest"
    from "11.IH"(1) [OF j(1) f(2) follows_punct(1)]
    have v: "parse_value f (json_text 0 0 x @ CHR '','' # ?others) = Some (x, CHR '','' # ?others)" .
    from "11.IH"(2) [OF j(2) False f(3)]
    have "parse_elements f ?others = Some (xs, rest)" .
    from parse_elements_step(2) [OF v refl this] ne u f(1) show ?thesis by simp
  qed
next
  case 12
  then show ?case by simp
next
  case (13 k v kvs)
  from "13.prems" obtain f where f: "fuel = Suc f" "need v \<le> f" "need_fields kvs \<le> f"
    by (cases fuel) auto
  from "13.prems" have j: "is_json v" "fields_json kvs" by simp_all
  then have u: "v \<noteq> JUndefined" by auto
  show ?case
  proof (cases "kvs = []")
    case True
    from "13.IH"(1) [OF j(1) f(2) follows_punct(3)]
    have "parse_value f (json_text 0 0 v @ CHR ''}'' # rest) = Some (v, CHR ''}'' # rest)" .
    from parse_members_step(1) [OF this refl, of k] True u f(1) show ?thesis by simp
  next
    case False
    from False j(2) have ne: "json_fields 0 0 kvs \<noteq> []" by (simp add: json_fields_json)
    let ?others = "separated '','' (json_fields 0 0 kvs) @ CHR ''}'' # rest"
    from "13.IH"(1) [OF j(1) f(2) follows_punct(1)]
    have v: "parse_value f (json_text 0 0 v @ CHR '','' # ?others) = Some (v, CHR '','' # ?others)" .
    from "13.IH"(2) [OF j(2) False f(3)]
    have "parse_members f ?others = Some (kvs, rest)" .
    from parse_members_step(2) [OF v refl this, of k] ne u f(1) show ?thesis by simp
  qed
qed

lemma length_json_quote: "2 \<le> length (json_quote s)"
  by (simp add: json_quote_def)

lemma need_le_length:
  "is_json v \<Longrightarrow> need v \<le> length (json_text 0 0 v)"
  "are_json xs \<Longrightarrow> need_items xs \<le> length (separated '','' (json_items 0 0 xs)) + 1"
  "fields_json kvs \<Longrightarrow> need_fields kvs \<le> length (separated '','' (json_fields 0 0 kvs)) + 1"
proof (induction v and xs and kvs rule: is_json_are_json_fields_json.induct)
  case (4 n)
  from string_of_int_start [of n] obtain c r where "string_of_int n = c # r" by blast
  then show ?case by simp
next
  case (5 s)
  from length_json_quote [of s] show ?case by simp
next
  case (6 xs)
  then show ?case by (auto simp: brackets_def)
next
  case (7 kvs)
  then show ?case by (auto simp: brackets_def)
next
  case (11 x xs)
  then have j: "is_json x" "are_json xs" by simp_all
  then have u: "x \<noteq> JUndefined" by auto
  from 11 j have a: "need x \<le> length (json_text 0 0 x)"
    "need_items xs \<le> length (separated '','' (json_items 0 0 xs)) + 1" by simp_all
  show ?case
  proof (cases "xs = []")
    case True
    with a u show ?thesis by simp
  next
    case False
    with j(2) have "json_items 0 0 xs \<noteq> []" by (simp add: json_items_json)
    with a u show ?thesis by simp
  qed
next
  case (13 k v kvs)
  then have j: "is_json v" "fields_json kvs" by simp_all
  then have u: "v \<noteq> JUndefined" by auto
  from 13 j have a: "need v \<le> length (json_text 0 0 v)"
    "need_fields kvs \<le> length (separated '','' (json_fields 0 0 kvs)) + 1" by simp_all
  show ?case
  proof (cases "kvs = []")
    case True
    with a u show ?thesis by simp
  next
    case False
    with j(2) have "json_fields 0 0 kvs \<noteq> []" by (simp add: json_fields_json)
    with a u show ?thesis by simp
  qed
qed simp_all


text \<open>Every JSON value is parsed back from its serialization.\<close>

lemma json_parse_stringify:
  assumes "is_json v"
  shows "json_parse (json_stringify v 0) = Inr v"
proof -
  let ?s = "json_text 0 0 v"
  from need_le_length(1) [OF assms] have "need v \<le> Suc (length ?s)" by simp
  from parse_roundtrip(1) [OF assms this, of "[]"]
  have "parse_value (Suc (length ?s)) ?s = Some (v, [])" by (simp add: follows_def)
  then show ?thesis by (simp add: json_parse_def json_stringify_def skip_ws_def)
qed

lemma greet_schema_text: "json_stringify greet_schema 0 = greet_json"
  by code_simp

lemma greet_schema_pretty: "json_stringify greet_schema 2 = greet_json_pretty"
  by code_simp

lemma greet_schema_is_json: "is_json greet_schema"
  by code_simp

lemma greet_json_parses: "json_parse greet_json = Inr greet_schema"
  using json_parse_stringify [OF greet_schema_is_json] by (simp add: greet_schema_text)

lemma greet_json_nonempty: "greet_json \<noteq> []"
  by (simp add: greet_json_def)

lemma risky_schema_text: "json_stringify risky_schema 0 = risky_json"
  by code_simp

lemma risky_json_parses: "json_parse risky_json = Inr risky_schema"
proof -
  have "is_json risky_schema" by code_simp
  from json_parse_stringify [OF this] show ?thesis by (simp add: risky_schema_text)
qed

lemma risky_json_nonempty: "risky_json \<noteq> []"
  by (simp add: risky_json_def)

lemma corrupt_text_fails: "json_parse ''{not json'' = Inl (mkSyntaxError ''Unexpected token in JSON'')"
  by code_simp

lemmas greet_codec = greet_schema_text greet_json_parses greet_json_nonempty

lemmas greet_codec_literal = greet_codec [unfolded greet_schema_def greet_json_def]

lemmas risky_codec = risky_schema_text risky_json_parses risky_json_nonempty

section \<open>Lemmas\<close>

lemma startsWith_append [simp]: "startsWith (p @ s) p"
  by (simp add: startsWith_def)

lemma catch_message_Error: "is_Error e \<Longrightarrow> \<exists>m. catch_message pre e = Inr (JStr (pre @ m))"
  by (cases e) (auto simp: catch_message_def)

lemma catch_message_cases:
  "(\<exists>m. catch_message pre e = Inr (JStr (pre @ m))) \<or> (\<exists>x. catch_message pre e = Inl x \<and> is_Error x)"
  by (cases e) (auto simp: catch_message_def mkTypeError_def)

lemma db_add_names:
  assumes "names_are_ids db" "db_add E db i ent = Inr db'" "propOf (metadata ent) ''name'' = JStr i"
  shows "names_are_ids db'"
  using assms by (auto simp: names_are_ids_def db_add_def split: option.splits if_splits)

lemma tool_metadata_name [simp]: "propOf (tool_metadata E n d p c b) ''name'' = n"
  by (simp add: tool_metadata_def propOf_def)

lemma typeof_string: "typeof v = ''string'' \<Longrightarrow> v = JStr (to_String v)"
  by (cases v) auto

lemma validateInputs_None:
  assumes "validateInputs n d p = None"
  shows "n = JStr (to_String n)" "valid_tool_name (to_String n)" "truthy n" "truthy d" "truthy p"
    "typeof d = ''string''" "typeof p = ''object''"
proof -
  from assms have a: "\<not> missing_arguments n d p" "\<not> invalid_argument_types n d p" "valid_tool_name (to_String n)"
    by (auto simp: validateInputs_def split: if_splits)
  from a(1) show "truthy n" "truthy d" "truthy p" by (auto simp: missing_arguments_def falsy_def)
  from a(2) show "typeof d = ''string''" "typeof p = ''object''" by (auto simp: invalid_argument_types_def)
  from a(2) have "typeof n = ''string''" by (auto simp: invalid_argument_types_def)
  then show "n = JStr (to_String n)" by (rule typeof_string)
  from a(3) show "valid_tool_name (to_String n)" .
qed

lemma storeTool_cases:
  assumes "storeTool E db n d p c = (r, db')"
  obtains
    (failed) e where "db' = db"
      "r = catch_message (''Error: Failed to store tool '' @ to_String n @ '' in database. '') e"
  | (existed) ent where "db' = db" "db (to_String n) = Some ent" "db_get_error E = None"
      "r = Inr (JStr (''Warning: Tool '' @ quote (to_String n) @ '' already existed. Creation skipped.''))"
  | (written) emb where "db (to_String n) = None" "db_get_error E = None"
      "db' = db(to_String n \<mapsto> created_entry E emb n d p c)"
      "r = Inr (JStr (''Successfully created tool: '' @ to_String n))"
proof (cases "db_get_error E")
  case (Some e)
  with assms have "db' = db" "r = catch_message (''Error: Failed to store tool '' @ to_String n @ '' in database. '') e"
    by (simp_all add: storeTool_def db_get_def Let_def)
  then show ?thesis by (rule failed)
next
  case get_ok: None
  show ?thesis
  proof (cases "db (to_String n)")
    case (Some ent)
    with get_ok assms have "db' = db"
      "r = Inr (JStr (''Warning: Tool '' @ quote (to_String n) @ '' already existed. Creation skipped.''))"
      by (simp_all add: storeTool_def db_get_def Let_def)
    then show ?thesis using Some get_ok by (intro existed)
  next
    case absent: None
    show ?thesis
    proof (cases "embedQuery E (to_String n @ '': '' @ to_String d)")
      case (Inl e)
      with absent get_ok assms have "db' = db"
        "r = catch_message (''Error: Failed to store tool '' @ to_String n @ '' in database. '') e"
        by (simp_all add: storeTool_def db_get_def Let_def)
      then show ?thesis by (rule failed)
    next
      case emb: (Inr emb)
      show ?thesis
      proof (cases "db_add_error E")
        case (Some e)
        with emb absent get_ok assms have "db' = db"
          "r = catch_message (''Error: Failed to store tool '' @ to_String n @ '' in database. '') e"
          by (simp_all add: storeTool_def db_get_def db_add_def Let_def)
        then show ?thesis by (rule failed)
      next
        case None
        with emb absent get_ok assms have "db' = db(to_String n \<mapsto> created_entry E emb n d p c)"
          "r = Inr (JStr (''Successfully created tool: '' @ to_String n))"
          by (simp_all add: storeTool_def db_get_def db_add_def Let_def created_entry_def)
        then show ?thesis using absent get_ok by (intro written)
      qed
    qed
  qed
qed

lemma validateInputs_Error: "validateInputs n d p = Some err \<Longrightarrow> startsWith err ''Error:''"
  by (auto simp: validateInputs_def startsWith_def split: if_splits)

lemma catch_message_prefix:
  "catch_message (''Error: '' @ pre) e = Inr v \<Longrightarrow> \<exists>msg. v = JStr msg \<and> startsWith msg ''Error:''"
  by (auto simp: catch_message_def startsWith_def split: sum.splits)

lemma validateCode_Inr:
  assumes "validateCode E name raw = (Inr code, evs)"
  shows "raw \<noteq> []" "code = sanitizeGeneratedCode raw name" "expected_signature name code"
    "syntax_error E code = None" "evs = [SyntaxChecked code]"
  using assms by (auto simp: validateCode_def Let_def split: if_splits option.splits)

lemma validateCode_Inl:
  assumes "validateCode E name raw = (Inl e, evs)"
  shows "is_Error e" "evs = [] \<or> evs = [SyntaxChecked (sanitizeGeneratedCode raw name)]"
  using assms by (auto simp: validateCode_def Let_def mkError_def split: if_splits option.splits)

lemma validateCode_rejects:
  assumes "\<not> expected_signature name (sanitizeGeneratedCode raw name)
           \<or> syntax_error E (sanitizeGeneratedCode raw name) \<noteq> None"
  shows "\<exists>e evs. validateCode E name raw = (Inl e, evs) \<and> is_Error e"
  using assms by (auto simp: validateCode_def Let_def mkError_def split: if_splits option.splits)

lemma generateCode_Inr:
  assumes "generateCode E name prompt = (Inr code, evs)"
  shows "\<exists>content raw. chat_content E prompt = Inr content \<and> trimmed_content content = Inr raw
           \<and> validateCode E name raw = (Inr code, [SyntaxChecked code])"
    "evs = [LlmCalled prompt, SyntaxChecked code]"
  using assms
  by (auto simp: generateCode_def split: sum.splits prod.splits dest: validateCode_Inr)

lemma createTool_cases:
  assumes "createTool E db n d p = (r, db', evs)"
  obtains
    (invalid) err where "validateInputs n d p = Some err" "r = Inr (JStr err)" "db' = db" "evs = []"
  | (prompt) e where "validateInputs n d p = None" "generateToolCreationPrompt E n d p = Inl e"
      "r = Inl e" "db' = db" "evs = []"
  | (rejected) prompt error where "validateInputs n d p = None"
      "generateToolCreationPrompt E n d p = Inr prompt"
      "generateCode E (to_String n) prompt = (Inl error, evs)"
      "r = catch_message (''Error: Failed to generate or validate code for tool '' @ to_String n @ ''. '') error"
      "db' = db"
  | (stored) prompt code where "validateInputs n d p = None"
      "generateToolCreationPrompt E n d p = Inr prompt"
      "generateCode E (to_String n) prompt = (Inr code, evs)"
      "storeTool E db n d p code = (r, db')"
proof (cases "validateInputs n d p")
  case (Some err)
  with assms show ?thesis by (intro invalid [of err]) (simp_all add: createTool_def)
next
  case valid: None
  show ?thesis
  proof (cases "generateToolCreationPrompt E n d p")
    case (Inl e)
    with valid assms show ?thesis by (intro prompt [of e]) (simp_all add: createTool_def)
  next
    case pr: (Inr pr)
    obtain g gevs where g: "generateCode E (to_String n) pr = (g, gevs)" by (cases "generateCode E (to_String n) pr")
    show ?thesis
    proof (cases g)
      case (Inl error)
      with g pr valid assms show ?thesis
        by (intro rejected [of pr error]) (simp_all add: createTool_def)
    next
      case (Inr code)
      with g pr valid assms show ?thesis
        by (intro stored [of pr code]) (auto simp: createTool_def split: prod.splits)
    qed
  qed
qed

lemma created_entry_name [simp]: "propOf (metadata (created_entry E emb n d p c)) ''name'' = n"
  by (simp add: created_entry_def)

lemma storeTool_names:
  assumes "names_are_ids db" "storeTool E db n d p c = (r, db')" "n = JStr (to_String n)"
  shows "names_are_ids db'"
  using assms(2)
proof (cases rule: storeTool_cases)
  case (written emb)
  have "propOf (metadata (created_entry E emb n d p c)) ''name'' = JStr (to_String n)"
    using assms(3) by simp
  with written(3) assms(1) show ?thesis
    by (auto simp: names_are_ids_def)
qed (use assms(1) in simp_all)

lemma createTool_names:
  assumes "names_are_ids db" "createTool E db n d p = (r, db', evs)"
  shows "names_are_ids db'"
  using assms(2)
proof (cases rule: createTool_cases)
  case (stored prompt code)
  from validateInputs_None(1) [OF stored(1)] storeTool_names [OF assms(1) stored(4)]
  show ?thesis by simp
qed (use assms(1) in simp_all)

lemma ensureToolCreationTool_names:
  assumes "names_are_ids db" "ensureToolCreationTool E db = (u, db')"
  shows "names_are_ids db'"
  using assms
  by (auto simp: ensureToolCreationTool_def Let_def db_add_def names_are_ids_def
      split: sum.splits option.splits if_splits)

lemma executeTool_store:
  assumes "executeTool E db toolName args = (r, db', evs)"
  shows "db' = db \<or> (\<exists>n d p r'. createTool E db n d p = (r', db', evs))"
proof (cases "toolName = TOOL_CREATION_NAME")
  case False
  with assms show ?thesis
    by (auto simp: executeTool_def split: option.splits if_splits prod.splits sum.splits)
next
  case True
  show ?thesis
  proof (cases "check_required E '' for tool_creation.'' args TOOL_CREATION_REQUIRED")
    case (Inl e)
    with True assms show ?thesis by (simp add: executeTool_def Let_def)
  next
    case (Inr u)
    show ?thesis
    proof (cases "invalid_creation_types args")
      case True
      with Inr \<open>toolName = TOOL_CREATION_NAME\<close> assms show ?thesis by (simp add: executeTool_def Let_def)
    next
      case False
      obtain r' db2 evs2 where c: "createTool E db (propOf args ''new_tool_name'')
        (propOf args ''new_tool_description'') (propOf args ''new_tool_parameters'') = (r', db2, evs2)"
        by (cases "createTool E db (propOf args ''new_tool_name'')
        (propOf args ''new_tool_description'') (propOf args ''new_tool_parameters'')") auto
      with False Inr \<open>toolName = TOOL_CREATION_NAME\<close> assms have "db' = db2" "evs = evs2"
        by (auto simp: executeTool_def Let_def split: sum.splits)
      with c show ?thesis by blast
    qed
  qed
qed

lemma reachable_names: "reachable db \<Longrightarrow> names_are_ids db"
proof (induction rule: reachable.induct)
  case empty
  show ?case by (simp add: names_are_ids_def)
next
  case (ensure db E u db')
  then show ?case by (blast intro: ensureToolCreationTool_names)
next
  case (create db E n d p r db' evs)
  then show ?case by (blast intro: createTool_names)
next
  case (execute db E toolName args r db' evs)
  from executeTool_store [OF execute.hyps(2)] execute.IH show ?case
    by (blast intro: createTool_names)
qed

lemma getAvailableTools_shape:
  "getAvailableTools E db ctx k = [creatorToolDef]
   \<or> (\<exists>v results. embedQuery E ctx = Inr v \<and> db_query E db v k = Inr results
        \<and> getAvailableTools E db ctx k = creatorToolDef # collectTools E results)"
  by (auto simp: getAvailableTools_def queryTools_def split: sum.splits)

lemma db_query_results:
  assumes "db_query E db v k = Inr results" "(i, md) \<in> set results"
  shows "\<exists>ent. db i = Some ent \<and> md = metadata ent"
proof -
  from assms(1) have "results = map (\<lambda>i. (i, case db i of None \<Rightarrow> JUndefined | Some ent \<Rightarrow> metadata ent))
                 (take (nat k) (filter (\<lambda>i. db i \<noteq> None) (db_rank E v)))"
    by (simp add: db_query_def split: option.splits)
  with assms(2) obtain j where j: "j \<in> set (take (nat k) (filter (\<lambda>i. db i \<noteq> None) (db_rank E v)))"
    "(i, md) = (j, case db j of None \<Rightarrow> JUndefined | Some ent \<Rightarrow> metadata ent)"
    by auto
  from j(1) have "j \<in> set (filter (\<lambda>i. db i \<noteq> None) (db_rank E v))" by (rule in_set_takeD)
  then have "db j \<noteq> None" by simp
  with j(2) show ?thesis by auto
qed

lemma collectTools_origin:
  assumes "t \<in> set (collectTools E results)"
  shows "\<exists>i md. (i, md) \<in> set results \<and> i \<noteq> TOOL_CREATION_NAME \<and> complete_result md
           \<and> JSON_parse E (to_String (propOf md ''parameters_json'')) = Inr (t_parameters t)
           \<and> t_name t = propOf md ''name'' \<and> t_description t = propOf md ''description''"
  using assms
proof (induction results)
  case Nil
  then show ?case by simp
next
  case (Cons r results)
  obtain i md where r: "r = (i, md)" by (cases r)
  show ?case
  proof (cases "t \<in> set (collectTools E results)")
    case True
    from Cons.IH [OF True] show ?thesis by auto
  next
    case False
    with Cons.prems r have new: "i \<noteq> TOOL_CREATION_NAME" "complete_result md"
      "\<exists>ps. JSON_parse E (to_String (propOf md ''parameters_json'')) = Inr ps
         \<and> t = \<lparr> t_name = propOf md ''name'', t_description = propOf md ''description'', t_parameters = ps \<rparr>"
      by (auto split: if_splits sum.splits)
    then obtain ps where ps: "JSON_parse E (to_String (propOf md ''parameters_json'')) = Inr ps"
      "t = \<lparr> t_name = propOf md ''name'', t_description = propOf md ''description'', t_parameters = ps \<rparr>"
      by blast
    have "(i, md) \<in> set (r # results)" using r by simp
    moreover have "JSON_parse E (to_String (propOf md ''parameters_json'')) = Inr (t_parameters t)"
      "t_name t = propOf md ''name''" "t_description t = propOf md ''description''"
      using ps by simp_all
    ultimately show ?thesis using new(1,2) by blast
  qed
qed

lemma collectTools_skips:
  assumes "i = TOOL_CREATION_NAME \<or> \<not> complete_result md
           \<or> isl (JSON_parse E (to_String (propOf md ''parameters_json'')))"
  shows "collectTools E (before @ (i, md) # after) = collectTools E before @ collectTools E after"
  using assms
  by (induction before) (auto simp: isl_def split: sum.splits)

lemma collectTools_names:
  assumes "names_are_ids db" "db_query E db v k = Inr results"
  shows "JStr TOOL_CREATION_NAME \<notin> t_name ` set (collectTools E results)"
proof
  assume "JStr TOOL_CREATION_NAME \<in> t_name ` set (collectTools E results)"
  then obtain t where t: "t \<in> set (collectTools E results)" "t_name t = JStr TOOL_CREATION_NAME" by auto
  from collectTools_origin [OF t(1)] obtain i md where o: "(i, md) \<in> set results"
    "i \<noteq> TOOL_CREATION_NAME" "t_name t = propOf md ''name''" by blast
  from db_query_results [OF assms(2) o(1)] obtain ent where "db i = Some ent" "md = metadata ent" by blast
  with assms(1) have "propOf md ''name'' = JStr i" by (simp add: names_are_ids_def)
  with o(2,3) t(2) show False by simp
qed

lemmas js_defs = falsy_def nullish_def propOf_def startsWith_def is_space_def trim_def nl_def quote_def
  mkError_def mkTypeError_def mkSyntaxError_def catch_message_def

lemmas demo_defs = demo_env_def demo_store_def greet_schema_def greet_codec_literal greet_code_def
  greet_description_def greet_function_def created_entry_def tool_metadata_def

lemma collectTools_filter: "collectTools E (filter (usable E) results) = collectTools E results"
proof (induction results)
  case Nil
  show ?case by simp
next
  case (Cons r results)
  obtain i md where r: "r = (i, md)" by (cases r)
  show ?case
  proof (cases "usable E (i, md)")
    case True
    with Cons.IH r show ?thesis by (simp split: sum.splits)
  next
    case False
    then have "collectTools E ((i, md) # results) = collectTools E results"
      by (auto simp: usable_def isl_def split: sum.splits)
    with False Cons.IH r show ?thesis by simp
  qed
qed

lemma complete_result_truthy:
  "complete_result md \<Longrightarrow> truthy (propOf md ''name'') \<and> truthy (propOf md ''description'')"
  by (simp add: complete_result_def)


lemma generateCode_events:
  "generateCode E name prompt = (g, evs) \<Longrightarrow> list_all (\<lambda>e. \<not> runs_code e) evs"
  by (auto simp: generateCode_def validateCode_def Let_def split: sum.splits prod.splits if_splits option.splits)

lemma createTool_events:
  assumes "createTool E db n d p = (r, db', evs)"
  shows "list_all (\<lambda>e. \<not> runs_code e) evs"
  using assms
  by (cases rule: createTool_cases) (auto dest: generateCode_events)

lemma createTool_written:
  assumes "createTool E db n d p = (r, db', evs)" "db' \<noteq> db"
  shows "\<exists>emb code prompt. db' = db(to_String n \<mapsto> created_entry E emb n d p code)
           \<and> db (to_String n) = None \<and> db_get_error E = None
           \<and> validateInputs n d p = None
           \<and> generateCode E (to_String n) prompt = (Inr code, evs)
           \<and> r = Inr (JStr (''Successfully created tool: '' @ to_String n))"
  using assms(1)
proof (cases rule: createTool_cases)
  case (stored prompt code)
  from stored(4) show ?thesis
  proof (cases rule: storeTool_cases)
    case (written emb)
    with stored show ?thesis by blast
  qed (use assms(2) in simp_all)
qed (use assms(2) in simp_all)



lemma demo_valid: "validateInputs (JStr ''greet_soul'') (JStr greet_description) greet_schema = None"
  by (simp add: validateInputs_def missing_arguments_def invalid_argument_types_def valid_tool_name_def
        is_letter_def is_digit_def falsy_def quote_def greet_description_def greet_schema_def)

lemma demo_prompt:
  "generateToolCreationPrompt demo_env (JStr ''greet_soul'') (JStr greet_description) greet_schema
   = Inr (prompt_text demo_env (JStr ''greet_soul'') (JStr greet_description) greet_schema ''name'')"
  by (simp add: generateToolCreationPrompt_def invalid_schema_def Object_entries_def join_required_def
        propOf_def greet_schema_def)

lemma demo_sanitized:
  "sanitizeGeneratedCode (trim (''```javascript'' @ nl @ greet_code @ nl @ ''```'')) ''greet_soul'' = greet_code"
  by code_simp

lemma demo_signature: "expected_signature ''greet_soul'' greet_code"
  by (simp add: expected_signature_def startsWith_def greet_code_def)

lemma demo_generated:
  "generateCode demo_env ''greet_soul'' prompt = (Inr greet_code, [LlmCalled prompt, SyntaxChecked greet_code])"
proof -
  have "chat_content demo_env prompt = Inr (JStr (''```javascript'' @ nl @ greet_code @ nl @ ''```''))"
    by (simp add: demo_env_def)
  moreover have "syntax_error demo_env greet_code = None" by (simp add: demo_env_def)
  moreover have "greet_code \<noteq> []" by (simp add: greet_code_def)
  moreover have "trim (''```javascript'' @ nl @ greet_code @ nl @ ''```'') \<noteq> []" by code_simp
  ultimately show ?thesis
    using demo_sanitized demo_signature
    by (simp add: generateCode_def trimmed_content_def validateCode_def Let_def)
qed

lemma demo_created:
  "createTool demo_env Map.empty (JStr ''greet_soul'') (JStr greet_description) greet_schema
   = (Inr (JStr ''Successfully created tool: greet_soul''), demo_store,
      [LlmCalled (prompt_text demo_env (JStr ''greet_soul'') (JStr greet_description) greet_schema ''name''),
       SyntaxChecked greet_code])"
proof -
  have "storeTool demo_env Map.empty (JStr ''greet_soul'') (JStr greet_description) greet_schema greet_code
        = (Inr (JStr ''Successfully created tool: greet_soul''), demo_store)"
    by (simp add: storeTool_def db_get_def db_add_def demo_store_def demo_env_def Let_def)
  then show ?thesis
    by (simp add: createTool_def demo_valid demo_prompt demo_generated)
qed

lemma demo_exists:
  "demo_store ''greet_soul''
   = Some (created_entry demo_env [1, 0, 0] (JStr ''greet_soul'') (JStr greet_description) greet_schema greet_code)"
  by (simp add: demo_store_def)

lemma stubborn_prompt:
  "generateToolCreationPrompt stubborn_env (JStr ''greet_soul'') (JStr greet_description) greet_schema
   = Inr (prompt_text stubborn_env (JStr ''greet_soul'') (JStr greet_description) greet_schema ''name'')"
  by (simp add: generateToolCreationPrompt_def invalid_schema_def Object_entries_def join_required_def
        propOf_def greet_schema_def)

lemma stubborn_sanitized:
  "sanitizeGeneratedCode ''function hello(params) { return 1; }'' ''greet_soul''
   = ''function hello(params) { return 1; }''"
  by code_simp

lemma demo_reachable: "reachable demo_store"
  using reachable.create [OF reachable.empty demo_created] .

lemma demo_tools:
  "getAvailableTools demo_env demo_store ''a quiet tavern'' 5
   = [creatorToolDef,
      \<lparr> t_name = JStr ''greet_soul'', t_description = JStr greet_description, t_parameters = greet_schema \<rparr>]"
  by (simp add: getAvailableTools_def queryTools_def db_query_def complete_result_def TOOL_CREATION_NAME_def js_defs demo_defs)

lemma corrupt_query:
  "db_query corrupt_env corrupt_store [1, 0, 0] 5 =
     Inr [(''broken'', metadata (the (corrupt_store ''broken''))),
          (''greet_soul'', metadata (the (corrupt_store ''greet_soul'')))]"
  by (simp add: db_query_def corrupt_env_def corrupt_store_def demo_defs)

lemma corrupt_tools:
  "getAvailableTools corrupt_env corrupt_store ''a quiet tavern'' 5
   = [creatorToolDef,
      \<lparr> t_name = JStr ''greet_soul'', t_description = JStr greet_description, t_parameters = greet_schema \<rparr>]"
  by (simp add: getAvailableTools_def queryTools_def db_query_def complete_result_def TOOL_CREATION_NAME_def
        corrupt_env_def corrupt_store_def corrupt_text_fails js_defs demo_defs)

lemma truthy_string: "typeof v = ''string'' \<Longrightarrow> truthy v = (to_String v \<noteq> [])"
  by (cases v) auto

lemma bad_arguments_iff: "bad_arguments n d p = (validateInputs n d p \<noteq> None)"
proof (cases "typeof n = ''string'' \<and> typeof d = ''string''")
  case True
  then show ?thesis
    by (auto simp: bad_arguments_def validateInputs_def missing_arguments_def invalid_argument_types_def
        falsy_def truthy_string)
next
  case False
  then show ?thesis
    by (auto simp: bad_arguments_def validateInputs_def missing_arguments_def invalid_argument_types_def)
qed

lemma bare_schema_bad: "\<not> bad_arguments (JStr ''fly'') (JStr ''Let a soul fly'') bare_schema"
  "invalid_schema bare_schema"
  by (simp_all add: bad_arguments_def invalid_schema_def bare_schema_def valid_tool_name_def
        is_letter_def is_digit_def propOf_def)

lemma read_prop_Inl: "read_prop E v k = Inl e \<Longrightarrow> is_Error e"
  by (cases v) (auto simp: read_prop_def mkTypeError_def)

lemma check_required_missing:
  assumes "param \<in> set required" "absent_in E args param"
  shows "\<exists>e. check_required E what args required = Inl e \<and> is_Error e"
  using assms
proof (induction required)
  case Nil
  then show ?case by simp
next
  case (Cons q required)
  show ?case
  proof (cases "read_prop E args (to_String q)")
    case (Inl e)
    with read_prop_Inl [OF Inl] show ?thesis by simp
  next
    case (Inr p)
    show ?thesis
    proof (cases "absent p")
      case True
      with Inr show ?thesis by (simp add: mkError_def)
    next
      case False
      with Inr Cons.prems have "param \<in> set required" by (auto simp: absent_in_def)
      from Cons.IH [OF this Cons.prems(2)] Inr False show ?thesis by simp
    qed
  qed
qed

lemma truthy_JArr_prop: "propOf schema ''required'' = JArr required \<Longrightarrow> truthy schema"
  by (cases schema) (auto simp: propOf_def index_prop_def split: if_splits option.splits)

lemma demo_inherited: "\<not> inherited demo_env (JObj kvs) ''name''" "inherited demo_env (JObj kvs) ''toString''"
  by (simp_all add: demo_env_def standard_members_def Object_prototype_def)

lemma demo_definition:
  "getToolDefinition demo_env demo_store ''greet_soul''
   = Some \<lparr> td_name = JStr ''greet_soul'', td_description = JStr greet_description,
            td_parameters = greet_schema, td_code = JStr greet_code, td_is_internal = JBool False \<rparr>"
  by (simp add: getToolDefinition_def db_get_def incomplete_metadata_def falsy_def propOf_def
        demo_env_def demo_store_def created_entry_def tool_metadata_def greet_codec greet_code_def)

lemma demo_required: "required_parameters demo_env demo_store ''greet_soul'' = Some [JStr ''name'']"
  by (simp add: required_parameters_def demo_definition TOOL_CREATION_NAME_def propOf_def greet_schema_def)

lemma demo_missing_message:
  "executeTool demo_env demo_store ''greet_soul'' (JObj [])
   = (Inr (JStr (''Error: Failed to execute tool greet_soul. Malformed code or unexpected runtime error. ''
                 @ ''Missing required parameter '' @ quote ''name'' @ '' for tool greet_soul.'')),
      demo_store, [])"
  by (simp add: executeTool_def demo_definition TOOL_CREATION_NAME_def unusable_code_def falsy_def
        runTool_def check_schema_required_def iterate_def propOf_def greet_schema_def nullish_def
        read_prop_def absent_def demo_inherited catch_message_def mkError_def quote_def greet_code_def)

lemma demo_greeting:
  "executeTool demo_env demo_store ''greet_soul'' (JObj [(''name'', JStr ''Aria'')])
   = (Inr (JStr ''Hello, Aria''), demo_store,
      [Compiled ''greet_soul'' greet_code, Invoked ''greet_soul'' (JObj [(''name'', JStr ''Aria'')])])"
proof -
  have "compile demo_env ''greet_soul'' greet_code = Body (\<lambda>params. Defines greet_function)"
    by (simp add: demo_env_def)
  then show ?thesis
    by (simp add: executeTool_def demo_definition TOOL_CREATION_NAME_def unusable_code_def falsy_def
        runTool_def check_schema_required_def iterate_def propOf_def greet_schema_def nullish_def
        read_prop_def absent_def functionWrapper_def greet_function_def greet_code_def)
qed

lemma async_valid: "validateInputs (JStr ''risky'') (JStr ''Take a risk'') risky_schema = None"
  by (simp add: validateInputs_def missing_arguments_def invalid_argument_types_def valid_tool_name_def
        is_letter_def is_digit_def falsy_def risky_schema_def)

lemma async_prompt:
  "generateToolCreationPrompt async_env (JStr ''risky'') (JStr ''Take a risk'') risky_schema
   = Inr (prompt_text async_env (JStr ''risky'') (JStr ''Take a risk'') risky_schema [])"
  by (simp add: generateToolCreationPrompt_def invalid_schema_def Object_entries_def join_required_def
        propOf_def risky_schema_def)

lemma async_sanitized: "sanitizeGeneratedCode (trim risky_code) ''risky'' = risky_code"
  by code_simp

lemma async_generated:
  "generateCode async_env ''risky'' prompt = (Inr risky_code, [LlmCalled prompt, SyntaxChecked risky_code])"
proof -
  have "chat_content async_env prompt = Inr (JStr risky_code)" by (simp add: async_env_def)
  moreover have "syntax_error async_env risky_code = None" by (simp add: async_env_def)
  moreover have "trim risky_code \<noteq> []" by code_simp
  moreover have "expected_signature ''risky'' risky_code"
    by (simp add: expected_signature_def startsWith_def risky_code_def)
  ultimately show ?thesis
    using async_sanitized
    by (simp add: generateCode_def trimmed_content_def validateCode_def Let_def)
qed

lemma async_created:
  "createTool async_env Map.empty (JStr ''risky'') (JStr ''Take a risk'') risky_schema
   = (Inr (JStr ''Successfully created tool: risky''), async_store,
      [LlmCalled (prompt_text async_env (JStr ''risky'') (JStr ''Take a risk'') risky_schema []),
       SyntaxChecked risky_code])"
proof -
  have "storeTool async_env Map.empty (JStr ''risky'') (JStr ''Take a risk'') risky_schema risky_code
        = (Inr (JStr ''Successfully created tool: risky''), async_store)"
    by (simp add: storeTool_def db_get_def db_add_def async_store_def async_env_def demo_env_def Let_def)
  then show ?thesis
    by (simp add: createTool_def async_valid async_prompt async_generated)
qed

lemma async_definition:
  "getToolDefinition async_env async_store ''risky''
   = Some \<lparr> td_name = JStr ''risky'', td_description = JStr ''Take a risk'',
            td_parameters = risky_schema, td_code = JStr risky_code, td_is_internal = JBool False \<rparr>"
  by (simp add: getToolDefinition_def db_get_def incomplete_metadata_def falsy_def propOf_def
        async_env_def demo_env_def async_store_def created_entry_def tool_metadata_def risky_codec
        risky_code_def)

lemma search_function_anchored: "search_function s = 0 \<or> search_function s = - 1"
  by (simp add: search_function_def)

lemma sanitize_keeps_or_wraps:
  "sanitizeGeneratedCode code name = trim (strip_fences code)
   \<or> sanitizeGeneratedCode code name
      = ''function '' @ name @ ''(params) {'' @ nl @ trim (strip_fences code) @ nl @ ''}''"
  using search_function_anchored [of "trim (strip_fences code)"]
  by (auto simp: sanitizeGeneratedCode_def Let_def)

lemma get_prop_Inl: "get_prop v k = Inl e \<Longrightarrow> is_Error e"
  by (cases v) (auto simp: mkTypeError_def)

lemma catch_message_Inl: "catch_message pre e = Inl x \<Longrightarrow> is_Error x"
  by (auto simp: catch_message_def split: sum.splits dest: get_prop_Inl)

lemma check_required_Inl: "check_required E what args required = Inl e \<Longrightarrow> is_Error e"
  by (induction required) (auto simp: mkError_def split: sum.splits if_splits dest: read_prop_Inl)

lemma paramDetails_Inl: "paramDetails entries = Inl e \<Longrightarrow> is_Error e"
  by (induction entries rule: paramDetails.induct) (auto split: sum.splits dest: get_prop_Inl)

lemma generateToolCreationPrompt_Inl:
  assumes "generateToolCreationPrompt E n d p = Inl e"
  shows "is_Error e"
proof (cases "invalid_schema p")
  case True
  with assms show ?thesis by (auto simp: generateToolCreationPrompt_def mkError_def)
next
  case False
  show ?thesis
  proof (cases "Object_entries (propOf p ''properties'')")
    case (Inl x)
    then have "is_Error x"
      by (auto simp: Object_entries_def mkTypeError_def split: jsval.splits)
    with Inl False assms show ?thesis by (simp add: generateToolCreationPrompt_def)
  next
    case entries: (Inr entries)
    show ?thesis
    proof (cases "paramDetails entries")
      case (Inl x)
      with entries False assms paramDetails_Inl [OF Inl] show ?thesis
        by (simp add: generateToolCreationPrompt_def)
    next
      case (Inr details)
      with entries False assms show ?thesis
        by (auto simp: generateToolCreationPrompt_def Let_def join_required_def mkTypeError_def
            split: sum.splits jsval.splits if_splits)
    qed
  qed
qed

lemma createTool_Inl:
  assumes "createTool E db n d p = (Inl e, db', evs)"
  shows "is_Error e"
  using assms
proof (cases rule: createTool_cases)
  case (prompt x)
  with generateToolCreationPrompt_Inl [OF prompt(2)] show ?thesis by simp
next
  case (rejected prompt error)
  then show ?thesis by (auto dest: catch_message_Inl [OF sym])
next
  case (stored prompt code)
  from stored(4) show ?thesis
    by (cases rule: storeTool_cases) (auto dest: catch_message_Inl [OF sym])
qed simp

lemma functionWrapper_Inl: "functionWrapper toolName body params = Inl e \<Longrightarrow> is_Error e"
  by (auto simp: functionWrapper_def Let_def split: sum.splits dest: catch_message_Inl)

lemma runTool_Inl:
  assumes "runTool E toolName toolCode schema args = (Inl e, evs)"
  shows "is_Error e"
proof (cases "check_schema_required E toolName schema args")
  case (Inl x)
  then have "is_Error x"
    by (auto simp: check_schema_required_def iterate_def mkTypeError_def
        split: if_splits sum.splits jsval.splits dest: check_required_Inl)
  with Inl assms show ?thesis by (simp add: runTool_def)
next
  case (Inr u)
  with assms show ?thesis
    by (auto simp: runTool_def mkSyntaxError_def split: compiled.splits dest: functionWrapper_Inl)
qed

text \<open>In the model, \<^verbatim>\<open>executeTool\<close> never throws: every handler reads the message of an error object.\<close>

lemma executeTool_never_throws: "\<exists>v. fst (executeTool E db toolName args) = Inr v"
proof (cases "toolName = TOOL_CREATION_NAME")
  case True
  show ?thesis
  proof (cases "check_required E '' for tool_creation.'' args TOOL_CREATION_REQUIRED")
    case (Inl e)
    from catch_message_Error [OF check_required_Inl [OF Inl]] Inl True show ?thesis
      by (fastforce simp: executeTool_def)
  next
    case (Inr u)
    show ?thesis
    proof (cases "invalid_creation_types args")
      case True
      from catch_message_Error [of "mkError ''Invalid parameter types for tool_creation.''"]
      have "\<exists>m. catch_message (''Error: Failed to execute '' @ toolName @ ''. '')
                   (mkError ''Invalid parameter types for tool_creation.'') = Inr m"
        by (simp add: mkError_def catch_message_def)
      with True Inr \<open>toolName = TOOL_CREATION_NAME\<close> show ?thesis
        by (auto simp: executeTool_def)
    next
      case False
      obtain r db' evs where c: "createTool E db (propOf args ''new_tool_name'')
        (propOf args ''new_tool_description'') (propOf args ''new_tool_parameters'') = (r, db', evs)"
        by (cases "createTool E db (propOf args ''new_tool_name'')
        (propOf args ''new_tool_description'') (propOf args ''new_tool_parameters'')") auto
      show ?thesis
      proof (cases r)
        case (Inl e)
        from catch_message_Error [OF createTool_Inl [OF c [unfolded Inl]]]
        obtain m where "catch_message (''Error: Failed to execute '' @ toolName @ ''. '') e
                   = Inr (JStr ((''Error: Failed to execute '' @ toolName @ ''. '') @ m))" by blast
        with Inl c False Inr \<open>toolName = TOOL_CREATION_NAME\<close> show ?thesis
          by (simp add: executeTool_def)
      next
        case (Inr v)
        with c False \<open>check_required E '' for tool_creation.'' args TOOL_CREATION_REQUIRED = Inr u\<close>
          \<open>toolName = TOOL_CREATION_NAME\<close> show ?thesis
          by (simp add: executeTool_def)
      qed
    qed
  qed
next
  case False
  show ?thesis
  proof (cases "getToolDefinition E db toolName")
    case None
    with False show ?thesis by (simp add: executeTool_def)
  next
    case (Some td)
    show ?thesis
    proof (cases "truthy (td_is_internal td) \<or> unusable_code (td_code td)")
      case True
      with Some False show ?thesis by (auto simp: executeTool_def)
    next
      case ok: False
      obtain r evs where run: "runTool E toolName (to_String (td_code td)) (td_parameters td) args = (r, evs)"
        by (cases "runTool E toolName (to_String (td_code td)) (td_parameters td) args")
      show ?thesis
      proof (cases r)
        case (Inl e)
        from catch_message_Error [OF runTool_Inl [OF run [unfolded Inl]]]
        obtain m where "catch_message (''Error: Failed to execute tool '' @ toolName
                       @ ''. Malformed code or unexpected runtime error. '') e
                   = Inr (JStr ((''Error: Failed to execute tool '' @ toolName
                       @ ''. Malformed code or unexpected runtime error. '') @ m))" by blast
        with Inl run ok Some False show ?thesis by (simp add: executeTool_def)
      next
        case (Inr v)
        with run ok Some False show ?thesis by (simp add: executeTool_def)
      qed
    qed
  qed
qed

text \<open>An exception that a tool raises synchronously is turned into an error text.\<close>

lemma executeTool_catches_synchronous_throw:
  assumes "toolName \<noteq> TOOL_CREATION_NAME"
    and "getToolDefinition E db toolName = Some td"
    and "\<not> truthy (td_is_internal td)" "\<not> unusable_code (td_code td)"
    and "check_schema_required E toolName (td_parameters td) args = Inr ()"
    and "compile E toolName (to_String (td_code td)) = Body body"
    and "body args = Defines f" "f args = Inl e"
  shows "\<exists>msg. fst (executeTool E db toolName args) = Inr (JStr msg) \<and> startsWith msg ''Error:''"
proof -
  from catch_message_cases [of "''Error: Execution failed for tool '' @ toolName @ '': ''" e]
  show ?thesis
  proof
    assume "\<exists>m. catch_message (''Error: Execution failed for tool '' @ toolName @ '': '') e
              = Inr (JStr ((''Error: Execution failed for tool '' @ toolName @ '': '') @ m))"
    with assms show ?thesis
      by (auto simp: executeTool_def runTool_def functionWrapper_def startsWith_def)
  next
    assume "\<exists>x. catch_message (''Error: Execution failed for tool '' @ toolName @ '': '') e = Inl x
              \<and> is_Error x"
    then obtain x where x: "catch_message (''Error: Execution failed for tool '' @ toolName @ '': '') e = Inl x"
      "is_Error x" by blast
    from catch_message_Error [OF x(2)] obtain m where
      "catch_message (''Error: Failed to execute tool '' @ toolName
          @ ''. Malformed code or unexpected runtime error. '') x
       = Inr (JStr ((''Error: Failed to execute tool '' @ toolName
          @ ''. Malformed code or unexpected runtime error. '') @ m))" by blast
    with x(1) assms show ?thesis
      by (simp add: executeTool_def runTool_def functionWrapper_def startsWith_def)
  qed
qed

text \<open>The scenario platform gives no member to a name that the source reads as a fixed key.\<close>

lemma fixed_keys_not_inherited:
  assumes "k \<in> set [''type'', ''properties'', ''required'', ''description'', ''name'', ''code'',
                     ''parameters_json'', ''is_internal'', ''message'', ''new_tool_name'',
                     ''new_tool_description'', ''new_tool_parameters'']"
  shows "\<not> standard_members v k"
  using assms
  by (cases v)
     (auto simp: standard_members_def Object_prototype_def Array_prototype_def String_prototype_def
        Number_prototype_def Promise_prototype_def)

subsection \<open>Violations of the preconditions of \<^verbatim>\<open>createTool\<close>\<close>

lemma createTool_rejects_arguments:
  assumes "bad_arguments n d p"
  shows "\<exists>msg. createTool E db n d p = (Inr (JStr msg), db, []) \<and> startsWith msg ''Error:''"
proof -
  from assms obtain err where e: "validateInputs n d p = Some err" by (auto simp: bad_arguments_iff)
  from validateInputs_Error [OF e] e show ?thesis by (simp add: createTool_def)
qed

lemma createTool_raises_invalid_schema:
  assumes "\<not> bad_arguments n d p" "invalid_schema p"
  shows "createTool E db n d p
         = (Inl (mkError ''Invalid parameters schema provided for new tool creation.''), db, [])"
proof -
  from assms(1) have "validateInputs n d p = None" by (simp add: bad_arguments_iff)
  with assms(2) show ?thesis by (simp add: createTool_def generateToolCreationPrompt_def)
qed

lemma fly_valid:
  "truthy p \<Longrightarrow> typeof p = ''object'' \<Longrightarrow> validateInputs (JStr ''fly'') (JStr ''Let a soul fly'') p = None"
  by (simp add: validateInputs_def missing_arguments_def invalid_argument_types_def falsy_def
        valid_tool_name_def is_letter_def is_digit_def)

lemma bare_schema_invalid: "invalid_schema bare_schema"
  by (simp add: invalid_schema_def bare_schema_def propOf_def)

lemma null_schema_prompt:
  "generateToolCreationPrompt E n d null_schema
   = Inl (mkTypeError ''Cannot convert undefined or null to object'')"
  by (simp add: generateToolCreationPrompt_def invalid_schema_def null_schema_def propOf_def
        Object_entries_def)

lemma fly_args_checked:
  "truthy p \<Longrightarrow> check_required E '' for tool_creation.'' (fly_args p) TOOL_CREATION_REQUIRED = Inr ()"
  by (cases p) (simp_all add: TOOL_CREATION_REQUIRED_def fly_args_def read_prop_def absent_def nullish_def)

lemma executeTool_reports_invalid_schema:
  "executeTool E db ''tool_creation'' (fly_args bare_schema)
   = (Inr (JStr ''Error: Failed to execute tool_creation. Invalid parameters schema provided for new tool creation.''),
      db, [])"
proof -
  have c: "createTool E db (JStr ''fly'') (JStr ''Let a soul fly'') bare_schema
         = (Inl (mkError ''Invalid parameters schema provided for new tool creation.''), db, [])"
    using fly_valid [of bare_schema] bare_schema_invalid
    by (simp add: createTool_def generateToolCreationPrompt_def bare_schema_def)
  have t: "\<not> invalid_creation_types (fly_args bare_schema)"
    by (simp add: invalid_creation_types_def fly_args_def propOf_def bare_schema_def)
  have p: "propOf (fly_args bare_schema) ''new_tool_name'' = JStr ''fly''"
    "propOf (fly_args bare_schema) ''new_tool_description'' = JStr ''Let a soul fly''"
    "propOf (fly_args bare_schema) ''new_tool_parameters'' = bare_schema"
    by (simp_all add: fly_args_def propOf_def)
  have k: "check_required E '' for tool_creation.'' (fly_args bare_schema) TOOL_CREATION_REQUIRED = Inr ()"
    by (rule fly_args_checked) (simp add: bare_schema_def)
  show ?thesis
    by (simp add: executeTool_def TOOL_CREATION_NAME_def k t p c catch_message_def mkError_def)
qed

lemma list_schema_text: "json_stringify list_schema 0 = list_json"
  by code_simp

lemma list_prompt:
  "generateToolCreationPrompt demo_env (JStr ''greet_soul'') (JStr greet_description) list_schema
   = Inr (prompt_text demo_env (JStr ''greet_soul'') (JStr greet_description) list_schema [])"
  by (simp add: generateToolCreationPrompt_def invalid_schema_def Object_entries_def join_required_def
        propOf_def list_schema_def)

lemma list_valid: "validateInputs (JStr ''greet_soul'') (JStr greet_description) list_schema = None"
  by (simp add: validateInputs_def missing_arguments_def invalid_argument_types_def valid_tool_name_def
        is_letter_def is_digit_def falsy_def greet_description_def list_schema_def)

lemma createTool_accepts_array_properties:
  "createTool demo_env Map.empty (JStr ''greet_soul'') (JStr greet_description) list_schema
   = (Inr (JStr ''Successfully created tool: greet_soul''),
      [''greet_soul'' \<mapsto> created_entry demo_env [1, 0, 0] (JStr ''greet_soul'') (JStr greet_description)
                            list_schema greet_code],
      [LlmCalled (prompt_text demo_env (JStr ''greet_soul'') (JStr greet_description) list_schema []),
       SyntaxChecked greet_code])"
proof -
  have "storeTool demo_env Map.empty (JStr ''greet_soul'') (JStr greet_description) list_schema greet_code
        = (Inr (JStr ''Successfully created tool: greet_soul''),
           [''greet_soul'' \<mapsto> created_entry demo_env [1, 0, 0] (JStr ''greet_soul'') (JStr greet_description)
                            list_schema greet_code])"
    by (simp add: storeTool_def db_get_def db_add_def demo_env_def Let_def)
  then show ?thesis
    by (simp add: createTool_def list_valid list_prompt demo_generated)
qed

subsection \<open>A required parameter with an inherited name\<close>

lemma stamp_schema_text: "json_stringify stamp_schema 0 = stamp_json"
  by code_simp

lemma stamp_json_parses: "json_parse stamp_json = Inr stamp_schema"
proof -
  have "is_json stamp_schema" by code_simp
  from json_parse_stringify [OF this] show ?thesis by (simp add: stamp_schema_text)
qed

lemma stamp_json_nonempty: "stamp_json \<noteq> []"
  by (simp add: stamp_json_def)

lemmas stamp_codec = stamp_schema_text stamp_json_parses stamp_json_nonempty

lemma stamp_valid: "validateInputs (JStr ''stamp'') (JStr ''Stamp a document'') stamp_schema = None"
  by (simp add: validateInputs_def missing_arguments_def invalid_argument_types_def valid_tool_name_def
        is_letter_def is_digit_def falsy_def stamp_schema_def)

lemma stamp_prompt:
  "generateToolCreationPrompt stamp_env (JStr ''stamp'') (JStr ''Stamp a document'') stamp_schema
   = Inr (prompt_text stamp_env (JStr ''stamp'') (JStr ''Stamp a document'') stamp_schema ''toString'')"
  by (simp add: generateToolCreationPrompt_def invalid_schema_def Object_entries_def join_required_def
        propOf_def stamp_schema_def)

lemma stamp_sanitized: "sanitizeGeneratedCode (trim stamp_code) ''stamp'' = stamp_code"
  by code_simp

lemma stamp_generated:
  "generateCode stamp_env ''stamp'' prompt = (Inr stamp_code, [LlmCalled prompt, SyntaxChecked stamp_code])"
proof -
  have "chat_content stamp_env prompt = Inr (JStr stamp_code)" by (simp add: stamp_env_def)
  moreover have "syntax_error stamp_env stamp_code = None" by (simp add: stamp_env_def)
  moreover have "trim stamp_code \<noteq> []" by code_simp
  moreover have "expected_signature ''stamp'' stamp_code"
    by (simp add: expected_signature_def startsWith_def stamp_code_def)
  ultimately show ?thesis
    using stamp_sanitized
    by (simp add: generateCode_def trimmed_content_def validateCode_def Let_def)
qed

text \<open>\<^verbatim>\<open>createTool\<close> accepts the schema and writes the tool.\<close>

lemma stamp_created:
  "createTool stamp_env Map.empty (JStr ''stamp'') (JStr ''Stamp a document'') stamp_schema
   = (Inr (JStr ''Successfully created tool: stamp''), stamp_store,
      [LlmCalled (prompt_text stamp_env (JStr ''stamp'') (JStr ''Stamp a document'') stamp_schema ''toString''),
       SyntaxChecked stamp_code])"
proof -
  have "storeTool stamp_env Map.empty (JStr ''stamp'') (JStr ''Stamp a document'') stamp_schema stamp_code
        = (Inr (JStr ''Successfully created tool: stamp''), stamp_store)"
    by (simp add: storeTool_def db_get_def db_add_def stamp_store_def stamp_env_def demo_env_def Let_def)
  then show ?thesis
    by (simp add: createTool_def stamp_valid stamp_prompt stamp_generated)
qed

lemma stamp_definition:
  "getToolDefinition stamp_env stamp_store ''stamp''
   = Some \<lparr> td_name = JStr ''stamp'', td_description = JStr ''Stamp a document'',
            td_parameters = stamp_schema, td_code = JStr stamp_code, td_is_internal = JBool False \<rparr>"
  by (simp add: getToolDefinition_def db_get_def incomplete_metadata_def falsy_def propOf_def
        stamp_env_def demo_env_def stamp_store_def created_entry_def tool_metadata_def stamp_codec
        stamp_code_def)

text \<open>The tool requires \<^verbatim>\<open>toString\<close>, and the empty argument bag has no such property.\<close>

lemma stamp_required: "required_parameters stamp_env stamp_store ''stamp'' = Some [JStr ''toString'']"
  by (simp add: required_parameters_def stamp_definition TOOL_CREATION_NAME_def propOf_def stamp_schema_def)

lemma stamp_inherited:
  "\<not> has_own (JObj []) ''toString''"
  "read_prop stamp_env (JObj []) ''toString'' = Inr Inherited"
  by (simp_all add: read_prop_def stamp_env_def demo_env_def standard_members_def Object_prototype_def)

text \<open>
  When \<^verbatim>\<open>args\<close> neither holds nor inherits a value under a required name,
  \<^verbatim>\<open>executeTool\<close> fails before it reaches the engine.
\<close>

lemma absent_required_fails_fast:
  assumes "required_parameters E db toolName = Some required"
    and "param \<in> set required"
    and "absent_in E args param"
  shows "\<exists>msg. executeTool E db toolName args = (Inr (JStr msg), db, []) \<and> startsWith msg ''Error:''"
proof (cases "toolName = TOOL_CREATION_NAME")
  case True
  with assms(1) have "required = TOOL_CREATION_REQUIRED" by (simp add: required_parameters_def)
  with check_required_missing [OF assms(2,3)] obtain e where
    e: "check_required E '' for tool_creation.'' args TOOL_CREATION_REQUIRED = Inl e" "is_Error e" by blast
  from catch_message_Error [OF e(2)] obtain m where
    "catch_message (''Error: Failed to execute '' @ toolName @ ''. '') e
       = Inr (JStr ((''Error: Failed to execute '' @ toolName @ ''. '') @ m))" by blast
  with True e(1) show ?thesis by (simp add: executeTool_def startsWith_def)
next
  case False
  with assms(1) obtain td where td: "getToolDefinition E db toolName = Some td"
    "propOf (td_parameters td) ''required'' = JArr required"
    by (auto simp: required_parameters_def split: option.splits jsval.splits)
  show ?thesis
  proof (cases "truthy (td_is_internal td) \<or> unusable_code (td_code td)")
    case True
    with False td(1) show ?thesis by (auto simp: executeTool_def startsWith_def)
  next
    case usable: False
    from check_required_missing [OF assms(2,3)] obtain e where
      e: "check_required E ('' for tool '' @ toolName @ ''.'') args required = Inl e" "is_Error e" by blast
    with td(2) truthy_JArr_prop [OF td(2)]
    have "check_schema_required E toolName (td_parameters td) args = Inl e"
      by (simp add: check_schema_required_def iterate_def)
    then have r: "runTool E toolName (to_String (td_code td)) (td_parameters td) args = (Inl e, [])"
      by (simp add: runTool_def)
    from catch_message_Error [OF e(2)] obtain m where
      "catch_message (''Error: Failed to execute tool '' @ toolName
          @ ''. Malformed code or unexpected runtime error. '') e
       = Inr (JStr ((''Error: Failed to execute tool '' @ toolName
          @ ''. Malformed code or unexpected runtime error. '') @ m))" by blast
    with False td(1) usable r show ?thesis by (simp add: executeTool_def startsWith_def)
  qed
qed

subsection \<open>A schema with an \<^verbatim>\<open>undefined\<close> property\<close>







section \<open>The claims\<close>

text \<open>
  Claim C1 fails on a tool that was generated as an asynchronous function.
  \<^verbatim>\<open>createTool\<close> accepts the signature \<^verbatim>\<open>async function <name>(params)\<close>, but the
  wrapper of \<^verbatim>\<open>executeTool\<close> calls the function without awaiting it: an exception
  raised inside the tool rejects the promise, no handler sees it, and
  \<^verbatim>\<open>executeTool\<close> returns the text \<^verbatim>\<open>[object Promise]\<close>, which does not start with
  \<^verbatim>\<open>Error:\<close>.
\<close>

theorem executeTool_async_tool:
  "executeTool async_env async_store ''risky'' (JObj [])
   = (Inr (JStr ''[object Promise]''), async_store,
      [Compiled ''risky'' risky_code, Invoked ''risky'' (JObj [])])"
proof -
  have "compile async_env ''risky'' risky_code = Body (\<lambda>params. Defines risky_function)"
    by (simp add: async_env_def)
  then show ?thesis
    by (simp add: executeTool_def async_definition TOOL_CREATION_NAME_def unusable_code_def falsy_def
        runTool_def check_schema_required_def propOf_def risky_schema_def
        functionWrapper_def risky_function_def risky_code_def)
qed

text \<open>
  Claim C2. \<^verbatim>\<open>createTool\<close> persists a source text only if the sanitized text
  starts with \<^verbatim>\<open>function <name>(params)\<close> or \<^verbatim>\<open>async function <name>(params)\<close> and
  passes the syntax check of the engine; when either check fails it returns a
  text that starts with \<^verbatim>\<open>Error:\<close> and leaves the collection as it was. The check
  parses only: \<^verbatim>\<open>createTool\<close> never compiles a wrapper and never invokes a tool.
\<close>

theorem validated_code_only:
  assumes "createTool E db n d p = (r, db', evs)"
  shows "(db' \<noteq> db \<longrightarrow>
            (\<exists>emb code. db' = db(to_String n \<mapsto> created_entry E emb n d p code)
               \<and> expected_signature (to_String n) code \<and> syntax_error E code = None))
         \<and> (\<forall>prompt content raw.
               validateInputs n d p = None \<and> generateToolCreationPrompt E n d p = Inr prompt
               \<and> chat_content E prompt = Inr content \<and> trimmed_content content = Inr raw
               \<and> (\<not> expected_signature (to_String n) (sanitizeGeneratedCode raw (to_String n))
                  \<or> syntax_error E (sanitizeGeneratedCode raw (to_String n)) \<noteq> None)
               \<longrightarrow> db' = db \<and> (\<exists>msg. r = Inr (JStr msg) \<and> startsWith msg ''Error:''))
         \<and> list_all (\<lambda>e. \<not> runs_code e) evs"
proof -
  have stored: "\<exists>emb code. db' = db(to_String n \<mapsto> created_entry E emb n d p code)
               \<and> expected_signature (to_String n) code \<and> syntax_error E code = None"
    if "db' \<noteq> db"
  proof -
    from createTool_written [OF assms that] obtain emb code prompt where
      w: "db' = db(to_String n \<mapsto> created_entry E emb n d p code)"
      "generateCode E (to_String n) prompt = (Inr code, evs)" by blast
    from generateCode_Inr(1) [OF w(2)] obtain raw where
      "validateCode E (to_String n) raw = (Inr code, [SyntaxChecked code])" by blast
    from validateCode_Inr(3,4) [OF this] w(1) show ?thesis by blast
  qed
  have rejected: "db' = db \<and> (\<exists>msg. r = Inr (JStr msg) \<and> startsWith msg ''Error:'')"
    if h: "validateInputs n d p = None \<and> generateToolCreationPrompt E n d p = Inr prompt
               \<and> chat_content E prompt = Inr content \<and> trimmed_content content = Inr raw
               \<and> (\<not> expected_signature (to_String n) (sanitizeGeneratedCode raw (to_String n))
                  \<or> syntax_error E (sanitizeGeneratedCode raw (to_String n)) \<noteq> None)"
    for prompt content raw
  proof -
    from h validateCode_rejects [of "to_String n" raw E] obtain e vevs where
      v: "validateCode E (to_String n) raw = (Inl e, vevs)" "is_Error e" by blast
    with h have g: "generateCode E (to_String n) prompt = (Inl e, LlmCalled prompt # vevs)"
      by (simp add: generateCode_def)
    from catch_message_Error [OF v(2)] obtain m where
      "catch_message (''Error: Failed to generate or validate code for tool '' @ to_String n @ ''. '') e
         = Inr (JStr ((''Error: Failed to generate or validate code for tool '' @ to_String n @ ''. '') @ m))"
      by blast
    with g h assms show ?thesis by (auto simp: createTool_def startsWith_def)
  qed
  from stored rejected createTool_events [OF assms] show ?thesis by blast
qed

theorem validated_code_only_witness:
  "demo_store \<noteq> Map.empty
   \<and> (\<exists>emb code. demo_store = Map.empty(''greet_soul'' \<mapsto>
          created_entry demo_env emb (JStr ''greet_soul'') (JStr greet_description) greet_schema code)
        \<and> expected_signature ''greet_soul'' code \<and> syntax_error demo_env code = None)
   \<and> \<not> expected_signature ''greet_soul''
         (sanitizeGeneratedCode ''function hello(params) { return 1; }'' ''greet_soul'')
   \<and> fst (snd (createTool stubborn_env demo_store (JStr ''greet_soul'') (JStr greet_description) greet_schema))
       = demo_store
   \<and> (\<exists>msg. fst (createTool stubborn_env demo_store (JStr ''greet_soul'') (JStr greet_description) greet_schema)
              = Inr (JStr msg) \<and> startsWith msg ''Error:'')"
proof -
  have ne: "demo_store \<noteq> Map.empty"
  proof
    assume a: "demo_store = Map.empty"
    have "demo_store ''greet_soul'' = Map.empty ''greet_soul''" by (simp only: a)
    with demo_exists show False by simp
  qed
  from validated_code_only [OF demo_created] ne
  have a: "\<exists>emb code. demo_store = Map.empty(''greet_soul'' \<mapsto>
          created_entry demo_env emb (JStr ''greet_soul'') (JStr greet_description) greet_schema code)
        \<and> expected_signature ''greet_soul'' code \<and> syntax_error demo_env code = None"
    by simp
  have bad: "\<not> expected_signature ''greet_soul''
         (sanitizeGeneratedCode ''function hello(params) { return 1; }'' ''greet_soul'')"
    by (simp add: stubborn_sanitized expected_signature_def startsWith_def)
  have c: "chat_content stubborn_env
             (prompt_text stubborn_env (JStr ''greet_soul'') (JStr greet_description) greet_schema ''name'')
           = Inr (JStr ''function hello(params) { return 1; }'')"
    by (simp add: stubborn_env_def)
  have t: "trimmed_content (JStr ''function hello(params) { return 1; }'')
           = Inr ''function hello(params) { return 1; }''"
    by (simp add: trimmed_content_def trim_def is_space_def)
  obtain r db' evs where run:
    "createTool stubborn_env demo_store (JStr ''greet_soul'') (JStr greet_description) greet_schema = (r, db', evs)"
    by (cases "createTool stubborn_env demo_store (JStr ''greet_soul'') (JStr greet_description) greet_schema")
  from validated_code_only [OF run] demo_valid stubborn_prompt c t bad
  have "db' = demo_store \<and> (\<exists>msg. r = Inr (JStr msg) \<and> startsWith msg ''Error:'')"
    by simp
  with run ne a bad show ?thesis by simp
qed

text \<open>
  Claim C3 fails on a schema whose \<^verbatim>\<open>properties\<close> are missing or \<^verbatim>\<open>null\<close>. The
  checks of the first step of \<^verbatim>\<open>createTool\<close> return error texts, but the shape of
  the schema is checked by \<^verbatim>\<open>generateToolCreationPrompt\<close>, which throws, and
  \<^verbatim>\<open>createTool\<close> calls it before its first \<^verbatim>\<open>try\<close> block: the call raises
  \<^verbatim>\<open>Invalid parameters schema provided for new tool creation.\<close> on a schema without
  \<^verbatim>\<open>properties\<close>, and the \<^verbatim>\<open>TypeError\<close> of \<^verbatim>\<open>Object.entries\<close> on \<^verbatim>\<open>properties\<close> that are
  \<^verbatim>\<open>null\<close>, whatever the collaborators and the collection are. The collection is not
  touched and no collaborator is called.
\<close>

theorem createTool_raises_on_invalid_schema:
  "createTool E db (JStr ''fly'') (JStr ''Let a soul fly'') bare_schema
   = (Inl (mkError ''Invalid parameters schema provided for new tool creation.''), db, [])
   \<and> createTool E db (JStr ''fly'') (JStr ''Let a soul fly'') null_schema
     = (Inl (mkTypeError ''Cannot convert undefined or null to object''), db, [])"
proof
  have "validateInputs (JStr ''fly'') (JStr ''Let a soul fly'') bare_schema = None"
    by (rule fly_valid) (simp_all add: bare_schema_def)
  then show "createTool E db (JStr ''fly'') (JStr ''Let a soul fly'') bare_schema
   = (Inl (mkError ''Invalid parameters schema provided for new tool creation.''), db, [])"
    using bare_schema_invalid by (simp add: createTool_def generateToolCreationPrompt_def)
  have "validateInputs (JStr ''fly'') (JStr ''Let a soul fly'') null_schema = None"
    by (rule fly_valid) (simp_all add: null_schema_def)
  then show "createTool E db (JStr ''fly'') (JStr ''Let a soul fly'') null_schema
     = (Inl (mkTypeError ''Cannot convert undefined or null to object''), db, [])"
    by (simp add: createTool_def null_schema_prompt)
qed

text \<open>
  Claim C4. If a tool of the given name is in the collection at the duplicate
  re-check (the arguments are valid, the code was generated and validated, and
  the collection answers), \<^verbatim>\<open>createTool\<close> returns a warning that does not start
  with \<^verbatim>\<open>Error:\<close>, and the collection, the stored record included, is unchanged.
\<close>

theorem duplicate_name_is_skipped:
  assumes "validateInputs n d p = None"
    and "generateToolCreationPrompt E n d p = Inr prompt"
    and "generateCode E (to_String n) prompt = (Inr code, evs)"
    and "db_get_error E = None"
    and "db (to_String n) = Some ent"
  shows "createTool E db n d p
           = (Inr (JStr (''Warning: Tool '' @ quote (to_String n) @ '' already existed. Creation skipped.'')),
              db, evs)
         \<and> \<not> startsWith (''Warning: Tool '' @ quote (to_String n) @ '' already existed. Creation skipped.'')
               ''Error:''"
  using assms
  by (simp add: createTool_def storeTool_def db_get_def Let_def startsWith_def)

theorem duplicate_name_is_skipped_witness:
  "validateInputs (JStr ''greet_soul'') (JStr greet_description) greet_schema = None
   \<and> db_get_error demo_env = None
   \<and> demo_store ''greet_soul'' \<noteq> None
   \<and> createTool demo_env demo_store (JStr ''greet_soul'') (JStr greet_description) greet_schema
       = (Inr (JStr (''Warning: Tool '' @ quote ''greet_soul'' @ '' already existed. Creation skipped.'')),
          demo_store,
          [LlmCalled (prompt_text demo_env (JStr ''greet_soul'') (JStr greet_description) greet_schema ''name''),
           SyntaxChecked greet_code])"
proof -
  have g: "db_get_error demo_env = None" by (simp add: demo_env_def)
  have c: "generateCode demo_env (to_String (JStr ''greet_soul''))
             (prompt_text demo_env (JStr ''greet_soul'') (JStr greet_description) greet_schema ''name'')
           = (Inr greet_code,
              [LlmCalled (prompt_text demo_env (JStr ''greet_soul'') (JStr greet_description) greet_schema ''name''),
               SyntaxChecked greet_code])"
    by (simp add: demo_generated)
  have e: "demo_store (to_String (JStr ''greet_soul''))
           = Some (created_entry demo_env [1, 0, 0] (JStr ''greet_soul'') (JStr greet_description)
                     greet_schema greet_code)"
    by (simp add: demo_exists)
  from duplicate_name_is_skipped [where db = demo_store, OF demo_valid demo_prompt c g e]
  show ?thesis using demo_valid g demo_exists by simp
qed

text \<open>
  Claim C5. For every context text and every count, the list that
  \<^verbatim>\<open>getAvailableTools\<close> returns starts with the static descriptor of the reserved
  tool, and the reserved tool's name occurs exactly once in it. The collection is
  any state the manager can have produced.
\<close>

theorem reserved_tool_first_and_once:
  assumes "reachable db"
  shows "hd (getAvailableTools E db contextQuery count) = creatorToolDef
         \<and> getAvailableTools E db contextQuery count \<noteq> []
         \<and> count_list (map t_name (getAvailableTools E db contextQuery count)) (JStr TOOL_CREATION_NAME) = 1"
proof -
  have n: "t_name creatorToolDef = JStr TOOL_CREATION_NAME" by (simp add: creatorToolDef_def)
  from getAvailableTools_shape [of E db contextQuery count] show ?thesis
  proof
    assume "getAvailableTools E db contextQuery count = [creatorToolDef]"
    then show ?thesis using n by simp
  next
    assume "\<exists>v results. embedQuery E contextQuery = Inr v \<and> db_query E db v count = Inr results
        \<and> getAvailableTools E db contextQuery count = creatorToolDef # collectTools E results"
    then obtain v results where r: "db_query E db v count = Inr results"
      "getAvailableTools E db contextQuery count = creatorToolDef # collectTools E results" by blast
    from collectTools_names [OF reachable_names [OF assms] r(1)]
    have "JStr TOOL_CREATION_NAME \<notin> set (map t_name (collectTools E results))" by simp
    then have "count_list (map t_name (collectTools E results)) (JStr TOOL_CREATION_NAME) = 0"
      by (simp add: count_list_0_iff)
    with r(2) n show ?thesis by simp
  qed
qed

theorem reserved_tool_first_and_once_witness:
  "reachable demo_store
   \<and> hd (getAvailableTools demo_env demo_store ''a quiet tavern'' 5) = creatorToolDef
   \<and> getAvailableTools demo_env demo_store ''a quiet tavern'' 5 \<noteq> []
   \<and> count_list (map t_name (getAvailableTools demo_env demo_store ''a quiet tavern'' 5))
        (JStr TOOL_CREATION_NAME) = 1"
  using reserved_tool_first_and_once [OF demo_reachable, of demo_env "''a quiet tavern''" 5] demo_reachable
  by simp

text \<open>
  Claim C6 fails on a required parameter whose name every object inherits. The
  stored schema of the tool \<^verbatim>\<open>stamp\<close> requires \<^verbatim>\<open>toString\<close>, and the argument bag is
  empty; the check reads \<^verbatim>\<open>args['toString']\<close>, finds the method of
  \<^verbatim>\<open>Object.prototype\<close>, and lets the call through: the stored source is compiled
  and the tool is invoked.
\<close>

theorem inherited_name_passes_required_check:
  "required_parameters stamp_env stamp_store ''stamp'' = Some [JStr ''toString'']
   \<and> executeTool stamp_env stamp_store ''stamp'' (JObj [])
       = (Inr (JStr ''stamped''), stamp_store,
          [Compiled ''stamp'' stamp_code, Invoked ''stamp'' (JObj [])])"
proof -
  have "compile stamp_env ''stamp'' stamp_code = Body (\<lambda>params. Defines stamp_function)"
    by (simp add: stamp_env_def)
  moreover have "check_schema_required stamp_env ''stamp'' stamp_schema (JObj []) = Inr ()"
    by (simp add: check_schema_required_def iterate_def propOf_def stamp_schema_def stamp_inherited
          absent_def)
  ultimately have "executeTool stamp_env stamp_store ''stamp'' (JObj [])
       = (Inr (JStr ''stamped''), stamp_store,
          [Compiled ''stamp'' stamp_code, Invoked ''stamp'' (JObj [])])"
    by (simp add: executeTool_def stamp_definition TOOL_CREATION_NAME_def unusable_code_def falsy_def
        runTool_def functionWrapper_def stamp_function_def stamp_code_def)
  with stamp_required show ?thesis by simp
qed

text \<open>
  Claim C7. If the embedding model or the query of the collection fails during
  \<^verbatim>\<open>getAvailableTools\<close>, the handler of its \<^verbatim>\<open>try\<close> block catches the failure and the
  call returns the one-element list of the reserved tool's descriptor.
\<close>

theorem getAvailableTools_fails_soft:
  assumes "isl (embedQuery E contextQuery) \<or> db_query_error E \<noteq> None"
  shows "getAvailableTools E db contextQuery count = [creatorToolDef]"
  using assms
  by (auto simp: getAvailableTools_def queryTools_def db_query_def isl_def split: sum.splits option.splits)

theorem getAvailableTools_fails_soft_witness:
  "isl (embedQuery (demo_env\<lparr>embedQuery := \<lambda>t. Inl (mkError ''connect ECONNREFUSED'')\<rparr>) ''a quiet tavern'')
   \<and> getAvailableTools (demo_env\<lparr>embedQuery := \<lambda>t. Inl (mkError ''connect ECONNREFUSED'')\<rparr>)
         demo_store ''a quiet tavern'' 5 = [creatorToolDef]"
  using getAvailableTools_fails_soft
    [of "demo_env\<lparr>embedQuery := \<lambda>t. Inl (mkError ''connect ECONNREFUSED'')\<rparr>" "''a quiet tavern''" demo_store 5]
  by simp

text \<open>
  Claim C8 fails on a text with leading commentary. The pattern that looks for
  the \<^verbatim>\<open>function\<close> token is anchored at the start of the text, so the definition
  after the commentary is not found, and the whole text, commentary included, is
  wrapped in a function shell.
\<close>

theorem sanitize_wraps_leading_commentary:
  "sanitizeGeneratedCode ''Here is the function:\<newline>function greet_soul(params) { return 1; }'' ''greet_soul''
   = ''function greet_soul(params) {\<newline>Here is the function:\<newline>function greet_soul(params) { return 1; }\<newline>}''"
  by code_simp




text \<open>
  Claim C10. Every element of the list of \<^verbatim>\<open>getAvailableTools\<close> after the
  reserved descriptor is well-formed: its name and its description are truthy
  values of a stored record, and its schema is the successful parse of that
  record's serialized schema. A query result with incomplete metadata or with a
  serialized schema that does not parse is left out silently: the list is the
  same as if the query had returned the usable results only.
\<close>

theorem listed_tools_well_formed:
  "(\<forall>t \<in> set (tl (getAvailableTools E db contextQuery count)).
      truthy (t_name t) \<and> truthy (t_description t)
      \<and> (\<exists>i ent. db i = Some ent \<and> i \<noteq> TOOL_CREATION_NAME
            \<and> t_name t = propOf (metadata ent) ''name''
            \<and> t_description t = propOf (metadata ent) ''description''
            \<and> JSON_parse E (to_String (propOf (metadata ent) ''parameters_json'')) = Inr (t_parameters t)))
   \<and> (\<forall>v results. embedQuery E contextQuery = Inr v \<and> db_query E db v count = Inr results \<longrightarrow>
         getAvailableTools E db contextQuery count
         = creatorToolDef # collectTools E (filter (usable E) results))"
proof -
  have wf: "truthy (t_name t) \<and> truthy (t_description t)
      \<and> (\<exists>i ent. db i = Some ent \<and> i \<noteq> TOOL_CREATION_NAME
            \<and> t_name t = propOf (metadata ent) ''name''
            \<and> t_description t = propOf (metadata ent) ''description''
            \<and> JSON_parse E (to_String (propOf (metadata ent) ''parameters_json'')) = Inr (t_parameters t))"
    if t: "t \<in> set (tl (getAvailableTools E db contextQuery count))" for t
  proof -
    from getAvailableTools_shape [of E db contextQuery count] t
    obtain v results where r: "db_query E db v count = Inr results" "t \<in> set (collectTools E results)"
      by auto
    from collectTools_origin [OF r(2)] obtain i md where o: "(i, md) \<in> set results"
      "i \<noteq> TOOL_CREATION_NAME" "complete_result md"
      "JSON_parse E (to_String (propOf md ''parameters_json'')) = Inr (t_parameters t)"
      "t_name t = propOf md ''name''" "t_description t = propOf md ''description''" by blast
    from db_query_results [OF r(1) o(1)] obtain ent where e: "db i = Some ent" "md = metadata ent" by blast
    from complete_result_truthy [OF o(3)] o(5,6)
    have "truthy (t_name t)" "truthy (t_description t)" by simp_all
    moreover have "\<exists>i ent. db i = Some ent \<and> i \<noteq> TOOL_CREATION_NAME
              \<and> t_name t = propOf (metadata ent) ''name''
              \<and> t_description t = propOf (metadata ent) ''description''
              \<and> JSON_parse E (to_String (propOf (metadata ent) ''parameters_json'')) = Inr (t_parameters t)"
      using e o by blast
    ultimately show ?thesis by blast
  qed
  have omit: "getAvailableTools E db contextQuery count
         = creatorToolDef # collectTools E (filter (usable E) results)"
    if "embedQuery E contextQuery = Inr v \<and> db_query E db v count = Inr results" for v results
    using that by (simp add: getAvailableTools_def queryTools_def collectTools_filter)
  from wf omit show ?thesis by blast
qed

theorem listed_tools_well_formed_witness:
  "truthy (JStr ''greet_soul'') \<and> truthy (JStr greet_description)
   \<and> getAvailableTools corrupt_env corrupt_store ''a quiet tavern'' 5
     = creatorToolDef # collectTools corrupt_env
         (filter (usable corrupt_env)
            [(''broken'', metadata (the (corrupt_store ''broken''))),
             (''greet_soul'', metadata (the (corrupt_store ''greet_soul'')))])
   \<and> filter (usable corrupt_env)
            [(''broken'', metadata (the (corrupt_store ''broken''))),
             (''greet_soul'', metadata (the (corrupt_store ''greet_soul'')))]
      = [(''greet_soul'', metadata (the (corrupt_store ''greet_soul'')))]"
proof -
  have e: "embedQuery corrupt_env ''a quiet tavern'' = Inr [1, 0, 0]"
    by (simp add: corrupt_env_def demo_env_def)
  from listed_tools_well_formed [of corrupt_env corrupt_store "''a quiet tavern''" 5]
  have "getAvailableTools corrupt_env corrupt_store ''a quiet tavern'' 5
     = creatorToolDef # collectTools corrupt_env
         (filter (usable corrupt_env)
            [(''broken'', metadata (the (corrupt_store ''broken''))),
             (''greet_soul'', metadata (the (corrupt_store ''greet_soul'')))])"
    and "\<forall>t \<in> set (tl (getAvailableTools corrupt_env corrupt_store ''a quiet tavern'' 5)).
           truthy (t_name t) \<and> truthy (t_description t)"
    using e corrupt_query by blast+
  moreover from this(2) have "truthy (JStr ''greet_soul'') \<and> truthy (JStr greet_description)"
    by (simp add: corrupt_tools)
  moreover have "filter (usable corrupt_env)
            [(''broken'', metadata (the (corrupt_store ''broken''))),
             (''greet_soul'', metadata (the (corrupt_store ''greet_soul'')))]
      = [(''greet_soul'', metadata (the (corrupt_store ''greet_soul'')))]"
    by (simp add: usable_def complete_result_def corrupt_env_def corrupt_store_def corrupt_text_fails
          js_defs demo_defs)
  ultimately show ?thesis by blast
qed

end
